theory Spec2Isabelle
  imports Complex_Main "HOL-Library.Multiset"
begin

section \<open>Data model of the difficulty routines\<close>

text \<open>
  The TypeScript type \<^verbatim>\<open>string | string[]\<close>: an element of a difficulty submission
  and of the display structure returned to the front end.
\<close>

datatype stringOrArray = Str string | Arr "string list"

text \<open>
  Everything the routes below \<^verbatim>\<open>throw\<close>. The two order errors carry the values
  interpolated into their messages.
\<close>

datatype thrown =
    ParentOrdersNotContinuous int
  | ChildOrdersNotContinuous string int
  | InvalidMapDifficulty
  | CanonicalDifficultyNameError
  | TechNameError
  | LengthError
  | InvalidMapperUserId int
  | GamebananaNotResponding
  | Message string
  | Caught thrown

text \<open>
  The constructors stand for: the two template strings of \<^verbatim>\<open>getSortedDifficultyNames\<close>;
  the constants \<^verbatim>\<open>invalidMapDifficultyErrorMessage\<close>, \<^verbatim>\<open>canonicalDifficultyNameErrorMessage\<close>,
  \<^verbatim>\<open>techNameErrorMessage\<close>, \<^verbatim>\<open>lengthErrorMessage\<close>; \<^verbatim>\<open>invalidMapperUserIdErrorMessage\<close> followed
  by the id; the \<^verbatim>\<open>Error\<close> object of the identity lookups; a thrown string literal; and an
  \<^verbatim>\<open>errorWithMessage\<close> value that a caller throws again.

  A function whose body is one \<^verbatim>\<open>try\<close> block with \<^verbatim>\<open>catch (error) { return toErrorWithMessage(error) }\<close>
  returns what it caught as a value. Its result has type \<open>thrown + (errorWithMessage + 'a)\<close>:
  the outer \<open>Inl\<close> is an exception reaching the caller, the inner \<open>Inl\<close> the returned
  error value.
\<close>

datatype errorWithMessage = ErrorWithMessage thrown

definition tryCatch :: "thrown + 'a \<Rightarrow> thrown + (errorWithMessage + 'a)" where
  "tryCatch body = (case body of Inl e \<Rightarrow> Inr (Inl (ErrorWithMessage e)) | Inr v \<Rightarrow> Inr (Inr v))"

text \<open>JavaScript's \<^verbatim>\<open>xs[i]\<close> on an array: \<^verbatim>\<open>undefined\<close> (here \<open>None\<close>) out of range.\<close>

definition elementAt :: "'a list \<Rightarrow> nat \<Rightarrow> 'a option" where
  "elementAt xs i = (if i < length xs then Some (xs ! i) else None)"

text \<open>
  \<^verbatim>\<open>createChildDifficultyForMod\<close> and \<^verbatim>\<open>createParentDifficultyForMod\<close>. The parent name is read
  as element 0 of an array, which JavaScript answers with \<^verbatim>\<open>undefined\<close> on an empty array:
  \<open>None\<close> stands for \<^verbatim>\<open>undefined\<close>. An absent \<^verbatim>\<open>other_difficulties\<close> property is \<open>None\<close>.
\<close>

record createChildDifficultyForMod =
  child_name :: string
  child_order :: int

record createParentDifficultyForMod =
  parent_name :: "string option"
  parent_order :: int
  other_difficulties :: "createChildDifficultyForMod list option"

text \<open>
  A stored difficulty row, with the columns the reconstruction reads. A \<^verbatim>\<open>null\<close>
  \<^verbatim>\<open>parentDifficultyID\<close> is \<open>None\<close>.
\<close>

record difficulties =
  difficulty_id :: int
  difficulty_name :: string
  difficulty_order :: int
  parentDifficultyID :: "int option"

section \<open>getDifficultyArrays\<close>

text \<open>
  The inner loop over \<^verbatim>\<open>childDifficultyIndex\<close>, started at index 1 on the elements after
  the parent name. The state is \<^verbatim>\<open>childDifficultyArray\<close> and \<^verbatim>\<open>difficultyNamesArray\<close>.
\<close>

fun childDifficultyLoop ::
  "string list \<Rightarrow> int \<Rightarrow> createChildDifficultyForMod list \<times> string option list
     \<Rightarrow> createChildDifficultyForMod list \<times> string option list" where
  "childDifficultyLoop [] childDifficultyIndex st = st"
| "childDifficultyLoop (childDifficultyName # rest) childDifficultyIndex
       (childDifficultyArray, difficultyNamesArray) =
     childDifficultyLoop rest (childDifficultyIndex + 1)
       (childDifficultyArray @
          [\<lparr>child_name = childDifficultyName, child_order = childDifficultyIndex\<rparr>],
        difficultyNamesArray @ [Some childDifficultyName])"

text \<open>
  The outer loop over \<^verbatim>\<open>parentDifficultyIndex\<close>. The state is
  \<^verbatim>\<open>(difficultyNamesArray, difficultiesDataArray, modHasSubDifficultiesBool)\<close>.
\<close>

fun parentDifficultyLoop ::
  "stringOrArray list \<Rightarrow> int
     \<Rightarrow> string option list \<times> createParentDifficultyForMod list \<times> bool
     \<Rightarrow> string option list \<times> createParentDifficultyForMod list \<times> bool" where
  "parentDifficultyLoop [] parentDifficultyIndex st = st"
| "parentDifficultyLoop (Str s # rest) parentDifficultyIndex
       (difficultyNamesArray, difficultiesDataArray, modHasSubDifficultiesBool) =
     parentDifficultyLoop rest (parentDifficultyIndex + 1)
       (difficultyNamesArray @ [Some s],
        difficultiesDataArray @
          [\<lparr>parent_name = Some s, parent_order = parentDifficultyIndex + 1,
            other_difficulties = None\<rparr>],
        modHasSubDifficultiesBool)"
| "parentDifficultyLoop (Arr a # rest) parentDifficultyIndex
       (difficultyNamesArray, difficultiesDataArray, modHasSubDifficultiesBool) =
     (case childDifficultyLoop (drop 1 a) 1 ([], difficultyNamesArray) of
        (childDifficultyArray, difficultyNamesArray') \<Rightarrow>
          parentDifficultyLoop rest (parentDifficultyIndex + 1)
            (difficultyNamesArray' @ [elementAt a 0],
             difficultiesDataArray @
               [\<lparr>parent_name = elementAt a 0, parent_order = parentDifficultyIndex + 1,
                 other_difficulties = Some childDifficultyArray\<rparr>],
             True))"

text \<open>
  The body is one \<^verbatim>\<open>try\<close> block; none of its statements throws on an input of the
  declared type \<^verbatim>\<open>(string | string[])[]\<close>.
\<close>

definition getDifficultyArrays ::
  "stringOrArray list
     \<Rightarrow> thrown + (errorWithMessage +
           string option list \<times> createParentDifficultyForMod list \<times> bool)" where
  "getDifficultyArrays difficultyNames =
     tryCatch (Inr (parentDifficultyLoop difficultyNames 0 ([], [], False)))"

section \<open>getSortedDifficultyNames\<close>

text \<open>
  \<^verbatim>\<open>siblingArray[0].parentDifficultyID\<close>. Every array of \<^verbatim>\<open>subDifficultiesArray\<close> is created
  with one element and only grows, so the empty case is never read; it is given the value
  \<open>None\<close>, which equals no parent id.
\<close>

fun firstParentDifficultyID :: "difficulties list \<Rightarrow> int option" where
  "firstParentDifficultyID [] = None"
| "firstParentDifficultyID (d # ds) = parentDifficultyID d"

text \<open>
  The loop over \<^verbatim>\<open>subDifficultiesArray\<close> that pushes a sub-difficulty onto the array of its
  siblings; the first component is \<^verbatim>\<open>alreadyListed\<close>.
\<close>

fun pushToSiblingArray ::
  "difficulties \<Rightarrow> difficulties list list \<Rightarrow> bool \<times> difficulties list list" where
  "pushToSiblingArray difficulty [] = (False, [])"
| "pushToSiblingArray difficulty (siblingArray # rest) =
     (if firstParentDifficultyID siblingArray = parentDifficultyID difficulty
      then (True, (siblingArray @ [difficulty]) # rest)
      else (case pushToSiblingArray difficulty rest of
              (alreadyListed, rest') \<Rightarrow> (alreadyListed, siblingArray # rest')))"

text \<open>
  The first loop: the state is \<^verbatim>\<open>(parentDifficultyArray, subDifficultiesArray)\<close>.
\<close>

fun partitionDifficulties ::
  "difficulties list \<Rightarrow> difficulties list \<times> difficulties list list
     \<Rightarrow> difficulties list \<times> difficulties list list" where
  "partitionDifficulties [] st = st"
| "partitionDifficulties (difficulty # rest) (parentDifficultyArray, subDifficultiesArray) =
     (case parentDifficultyID difficulty of
        None \<Rightarrow>
          partitionDifficulties rest (parentDifficultyArray @ [difficulty], subDifficultiesArray)
      | Some p \<Rightarrow>
          (case pushToSiblingArray difficulty subDifficultiesArray of
             (alreadyListed, subDifficultiesArray') \<Rightarrow>
               if alreadyListed
               then partitionDifficulties rest (parentDifficultyArray, subDifficultiesArray')
               else partitionDifficulties rest
                      (parentDifficultyArray, subDifficultiesArray @ [[difficulty]])))"

text \<open>
  The search for the parent with the current order. \<^verbatim>\<open>parentId\<close> starts as \<^verbatim>\<open>NaN\<close>
  (here \<open>None\<close>) and \<^verbatim>\<open>parentName\<close> as the empty string.
\<close>

definition findParent :: "int \<Rightarrow> difficulties list \<Rightarrow> int option \<times> string" where
  "findParent parentOrder parentDifficultyArray =
     (case find (\<lambda>difficulty. difficulty_order difficulty = parentOrder) parentDifficultyArray of
        None \<Rightarrow> (None, '''')
      | Some difficulty \<Rightarrow> (Some (difficulty_id difficulty), difficulty_name difficulty))"

text \<open>
  The loop over \<^verbatim>\<open>siblingOrder\<close>: the name of the first sibling with each order is pushed;
  an order that no sibling has pushes nothing.
\<close>

definition childrenNames :: "difficulties list \<Rightarrow> string list" where
  "childrenNames siblingArray =
     concat (map (\<lambda>siblingOrder.
                    case find (\<lambda>sibling. difficulty_order sibling = siblingOrder) siblingArray of
                      None \<Rightarrow> []
                    | Some sibling \<Rightarrow> [difficulty_name sibling])
                 [1..int (length siblingArray)])"

text \<open>
  One round of the loop over \<^verbatim>\<open>parentOrder\<close>: what it pushes onto \<^verbatim>\<open>formattedArray\<close>.
  \<^verbatim>\<open>===\<close> against \<^verbatim>\<open>NaN\<close> is false for every sibling array.
\<close>

definition formatParent ::
  "difficulties list \<Rightarrow> difficulties list list \<Rightarrow> int \<Rightarrow> stringOrArray" where
  "formatParent parentDifficultyArray subDifficultiesArray parentOrder =
     (case findParent parentOrder parentDifficultyArray of
        (parentId, parentName) \<Rightarrow>
          (case find (\<lambda>siblingArray.
                        parentId \<noteq> None \<and> firstParentDifficultyID siblingArray = parentId)
                     subDifficultiesArray of
             Some siblingArray \<Rightarrow> Arr (parentName # childrenNames siblingArray)
           | None \<Rightarrow> Str parentName))"

text \<open>The final \<^verbatim>\<open>forEach\<close>: the first empty name found throws.\<close>

fun checkContinuous :: "int \<Rightarrow> stringOrArray list \<Rightarrow> thrown option" where
  "checkContinuous modID [] = None"
| "checkContinuous modID (Str parentDifficulty # rest) =
     (if parentDifficulty = '''' then Some (ParentOrdersNotContinuous modID)
      else checkContinuous modID rest)"
| "checkContinuous modID (Arr parentDifficulty # rest) =
     (if '''' \<in> set parentDifficulty
      then Some (ChildOrdersNotContinuous (hd parentDifficulty) modID)
      else checkContinuous modID rest)"

definition getSortedDifficultyNames ::
  "difficulties list \<Rightarrow> int \<Rightarrow> thrown + stringOrArray list" where
  "getSortedDifficultyNames difficulties modID =
     (case partitionDifficulties difficulties ([], []) of
        (parentDifficultyArray, subDifficultiesArray) \<Rightarrow>
          (let formattedArray =
                 map (formatParent parentDifficultyArray subDifficultiesArray)
                     [1..int (length parentDifficultyArray)]
           in case checkContinuous modID formattedArray of
                Some e \<Rightarrow> Inl e
              | None \<Rightarrow> Inr formattedArray))"

section \<open>The persistence store\<close>

text \<open>
  Modelled from the spec: the persistence store, which is outside the source (the routes
  hand \<^verbatim>\<open>difficultiesDataArray\<close> to the ORM's nested create and read the rows of a mod back
  with a query). The spec gives a row a numeric id assigned at persistence, a name, an
  order and a nullable \<^verbatim>\<open>parentDifficultyID\<close> that refers back to the parent's row. Ids are
  handed out from a counter, one per row; a creation record keeps its name and order; a
  child row refers to the id of the row of the parent it is nested under. A record
  without a name (\<^verbatim>\<open>undefined\<close>) is refused, the name being a string column.
\<close>

fun persistChildren ::
  "int \<Rightarrow> int \<Rightarrow> createChildDifficultyForMod list \<Rightarrow> difficulties list" where
  "persistChildren parentId nextId [] = []"
| "persistChildren parentId nextId (c # cs) =
     \<lparr>difficulty_id = nextId, difficulty_name = child_name c,
      difficulty_order = child_order c, parentDifficultyID = Some parentId\<rparr>
     # persistChildren parentId (nextId + 1) cs"

definition createdChildren ::
  "createParentDifficultyForMod \<Rightarrow> createChildDifficultyForMod list" where
  "createdChildren p = (case other_difficulties p of None \<Rightarrow> [] | Some create \<Rightarrow> create)"

fun persistDifficulties ::
  "int \<Rightarrow> createParentDifficultyForMod list \<Rightarrow> difficulties list option" where
  "persistDifficulties nextId [] = Some []"
| "persistDifficulties nextId (p # ps) =
     (case parent_name p of
        None \<Rightarrow> None
      | Some n \<Rightarrow>
          (case persistDifficulties (nextId + 1 + int (length (createdChildren p))) ps of
             None \<Rightarrow> None
           | Some rows \<Rightarrow>
               Some (\<lparr>difficulty_id = nextId, difficulty_name = n,
                      difficulty_order = parent_order p, parentDifficultyID = None\<rparr>
                     # persistChildren nextId (nextId + 1) (createdChildren p) @ rows)))"

section \<open>handleNonNormalMods\<close>

text \<open>
  The enum \<^verbatim>\<open>mods_details_type\<close> is declared by the ORM client; the code compares it with
  \<^verbatim>\<open>"Normal"\<close> and \<^verbatim>\<open>"Contest"\<close> only.
\<close>

datatype mods_details_type = Normal | Contest | OtherModType

record mapToTechCreationObject =
  maps_details_maps_detailsTomaps_to_tech_revision :: int
  tech_list_connect_name :: string
  fullClearOnlyBool :: bool

text \<open>
  \<^verbatim>\<open>mapIdCreationObject.map_details.create[0]\<close>, the one record the functions below write to.
  A property that is not set is \<open>None\<close>; a \<^verbatim>\<open>connect: { id: ... }\<close> object is its id.
\<close>

record mapDetailsCreationObject =
  md_name :: string
  md_canonicalDifficulty :: int
  md_map_lengths :: int
  md_description :: "string option"
  md_notes :: "string option"
  md_minimumModVersion :: "string option"
  md_mapRemovedFromModBool :: "bool option"
  md_timeSubmitted :: int
  md_submittedBy :: int
  md_timeApproved :: "int option"
  md_approvedBy :: "int option"
  md_mapperUserID :: "int option"
  md_mapperNameString :: "string option"
  md_chapter :: "int option"
  md_side :: "string option"
  md_overallRank :: "int option"
  md_modDifficultyID :: "int option"
  md_maps_to_tech :: "mapToTechCreationObject list option"

text \<open>\<^verbatim>\<open>defaultDifficultyForMod\<close>: a default difficulty row with its child rows included.\<close>

record defaultDifficultyForMod =
  default_id :: int
  default_name :: string
  default_other_difficulties :: "difficulties list option"

text \<open>
  The loop over \<^verbatim>\<open>customDifficultiesArray\<close> of a mod with sub-difficulties; the result is
  the value it leaves in \<^verbatim>\<open>validModDifficultyBool\<close>. \<^verbatim>\<open>===\<close> holds between two
  \<^verbatim>\<open>undefined\<close>, as equality does between two \<open>None\<close>.
\<close>

fun customSubDifficultyLoop ::
  "createParentDifficultyForMod list \<Rightarrow> string list \<Rightarrow> bool" where
  "customSubDifficultyLoop [] modDifficulty = False"
| "customSubDifficultyLoop (difficulty # rest) modDifficulty =
     (case other_difficulties difficulty of
        None \<Rightarrow> customSubDifficultyLoop rest modDifficulty
      | Some create \<Rightarrow>
          if parent_name difficulty = elementAt modDifficulty 0
          then list_ex (\<lambda>childDifficulty.
                          Some (child_name childDifficulty) = elementAt modDifficulty 1) create
          else customSubDifficultyLoop rest modDifficulty)"

text \<open>The loop of a mod without sub-difficulties, which throws inside the loop.\<close>

fun customDifficultyLoop ::
  "createParentDifficultyForMod list \<Rightarrow> stringOrArray \<Rightarrow> thrown + bool" where
  "customDifficultyLoop [] modDifficulty = Inr False"
| "customDifficultyLoop (difficulty # rest) modDifficulty =
     (case modDifficulty of
        Arr a \<Rightarrow> Inl InvalidMapDifficulty
      | Str s \<Rightarrow>
          if parent_name difficulty = Some s then Inr True
          else customDifficultyLoop rest modDifficulty)"

text \<open>
  The loop over \<^verbatim>\<open>defaultDifficultyObjectsArray\<close>, which also connects the child it finds.
\<close>

fun defaultDifficultyLoop ::
  "defaultDifficultyForMod list \<Rightarrow> string list \<Rightarrow> mapDetailsCreationObject
     \<Rightarrow> bool \<times> mapDetailsCreationObject" where
  "defaultDifficultyLoop [] modDifficulty mapIdCreationObject = (False, mapIdCreationObject)"
| "defaultDifficultyLoop (difficulty # rest) modDifficulty mapIdCreationObject =
     (case default_other_difficulties difficulty of
        None \<Rightarrow> defaultDifficultyLoop rest modDifficulty mapIdCreationObject
      | Some children \<Rightarrow>
          if children = [] then defaultDifficultyLoop rest modDifficulty mapIdCreationObject
          else if Some (default_name difficulty) = elementAt modDifficulty 0
          then (case find (\<lambda>childDifficulty.
                             Some (difficulty_name childDifficulty) = elementAt modDifficulty 1)
                          children of
                  Some childDifficulty \<Rightarrow>
                    (True, mapIdCreationObject
                             \<lparr>md_modDifficultyID := Some (difficulty_id childDifficulty)\<rparr>)
                | None \<Rightarrow> (False, mapIdCreationObject))
          else defaultDifficultyLoop rest modDifficulty mapIdCreationObject)"

text \<open>
  \<^verbatim>\<open>modDifficulty\<close> has type \<^verbatim>\<open>string | string[] | undefined\<close>; \<^verbatim>\<open>!modDifficulty\<close> holds of
  \<^verbatim>\<open>undefined\<close> and of the empty string. The function returns nothing: the result is the
  creation object it has written to, or what it throws. \<^verbatim>\<open>validModDifficultyBool\<close> is
  assigned by the loops and read nowhere.
\<close>

definition handleNonNormalMods ::
  "mapDetailsCreationObject \<Rightarrow> mods_details_type \<Rightarrow> int option \<Rightarrow> stringOrArray option
     \<Rightarrow> createParentDifficultyForMod list \<Rightarrow> defaultDifficultyForMod list \<Rightarrow> bool \<Rightarrow> bool
     \<Rightarrow> thrown + mapDetailsCreationObject" where
  "handleNonNormalMods mapIdCreationObject modType overallRank modDifficulty
       customDifficultiesArray defaultDifficultyObjectsArray
       modUsesCustomDifficultiesBool modHasSubDifficultiesBool =
     (let obj = (if modType = Contest then mapIdCreationObject\<lparr>md_overallRank := overallRank\<rparr>
                 else mapIdCreationObject)
      in case modDifficulty of
           None \<Rightarrow> Inl InvalidMapDifficulty
         | Some md \<Rightarrow>
             if md = Str [] then Inl InvalidMapDifficulty
             else if modUsesCustomDifficultiesBool then
               if customDifficultiesArray = []
               then Inl (Message ''customDifficultiesArray is empty'')
               else if modHasSubDifficultiesBool then
                 (case md of
                    Str s \<Rightarrow> Inl InvalidMapDifficulty
                  | Arr a \<Rightarrow>
                      (let validModDifficultyBool =
                             customSubDifficultyLoop customDifficultiesArray a
                       in Inr obj))
               else
                 (case customDifficultyLoop customDifficultiesArray md of
                    Inl e \<Rightarrow> Inl e
                  | Inr validModDifficultyBool \<Rightarrow> Inr obj)
             else
               if defaultDifficultyObjectsArray = []
               then Inl (Message ''defaultDifficultyObjectsArray is empty'')
               else
                 (case md of
                    Str s \<Rightarrow> Inl InvalidMapDifficulty
                  | Arr a \<Rightarrow>
                      (case defaultDifficultyLoop defaultDifficultyObjectsArray a obj of
                         (validModDifficultyBool, obj') \<Rightarrow> Inr obj')))"

section \<open>privilegedUser\<close>

record submitterUser =
  user_id :: int
  displayName :: string
  discordID :: string
  discordUsername :: string
  discordDiscrim :: string
  displayDiscord :: bool
  timeCreated :: int
  permissions :: string
  permissionsArray :: "string list"
  accountStatus :: string
  timeDeletedOrBanned :: "int option"

fun permLoop :: "string list \<Rightarrow> bool" where
  "permLoop [] = False"
| "permLoop (perm # rest) =
     (if perm = ''Super_Admin'' \<or> perm = ''Admin'' \<or> perm = ''Map_Moderator'' then True
      else permLoop rest)"

definition privilegedUser :: "submitterUser \<Rightarrow> thrown + (errorWithMessage + bool)" where
  "privilegedUser user =
     tryCatch (let permArray = permissionsArray user
               in if permArray = [] then Inr False else Inr (permLoop permArray))"

section \<open>getCanonicalDifficultyID\<close>

text \<open>
  A row of \<^verbatim>\<open>tech_list\<close> with its difficulty included, as the query returns it:
  \<^verbatim>\<open>techObject.name\<close>, \<^verbatim>\<open>techObject.defaultDifficultyID\<close>, \<^verbatim>\<open>techObject.difficulties.order\<close>.
\<close>

record techObject =
  tech_name :: string
  defaultDifficultyID :: int
  tech_difficulties_order :: int

fun easiestLoop :: "difficulties list \<Rightarrow> int \<times> int \<Rightarrow> thrown + int \<times> int" where
  "easiestLoop [] st = Inr st"
| "easiestLoop (parentDifficulty # rest) (easiestDifficultyID, easiestDifficultyOrder) =
     (if difficulty_order parentDifficulty = easiestDifficultyOrder
      then Inl (Message ''Two default parent difficulties have the same order'')
      else if difficulty_order parentDifficulty < easiestDifficultyOrder
      then easiestLoop rest (difficulty_id parentDifficulty, difficulty_order parentDifficulty)
      else easiestLoop rest (easiestDifficultyID, easiestDifficultyOrder))"

fun techAnyLoop :: "string list \<Rightarrow> techObject list \<Rightarrow> int \<times> int \<Rightarrow> thrown + int \<times> int" where
  "techAnyLoop [] techObjects st = Inr st"
| "techAnyLoop (techName # rest) techObjects (highestDifficultyID, highestDifficultyOrder) =
     (case find (\<lambda>techObject. tech_name techObject = techName) techObjects of
        None \<Rightarrow> Inl TechNameError
      | Some techObject \<Rightarrow>
          if tech_difficulties_order techObject = highestDifficultyOrder
          then Inl (Message ''Two default parent difficulties have the same order'')
          else if tech_difficulties_order techObject > highestDifficultyOrder
          then techAnyLoop rest techObjects
                 (defaultDifficultyID techObject, tech_difficulties_order techObject)
          else techAnyLoop rest techObjects (highestDifficultyID, highestDifficultyOrder))"

text \<open>
  The two queries are the first two arguments. \<^verbatim>\<open>canonicalDifficultyName\<close> is
  \<^verbatim>\<open>string | null | undefined\<close> and is truthy when it is a non-empty string; \<^verbatim>\<open>techAny\<close> is
  \<^verbatim>\<open>string[] | undefined\<close> and is truthy when it is an array.
\<close>

definition getCanonicalDifficultyID ::
  "difficulties list \<Rightarrow> techObject list \<Rightarrow> string option \<Rightarrow> string list option \<Rightarrow> thrown + int" where
  "getCanonicalDifficultyID parentDefaultDifficultyObjectsArray
       techObjectsWithDifficultyObjectsArray canonicalDifficultyName techAny =
     (if canonicalDifficultyName \<noteq> None \<and> canonicalDifficultyName \<noteq> Some []
      then (case find (\<lambda>parentDifficulty.
                         Some (difficulty_name parentDifficulty) = canonicalDifficultyName)
                      parentDefaultDifficultyObjectsArray of
              Some parentDifficulty \<Rightarrow> Inr (difficulty_id parentDifficulty)
            | None \<Rightarrow> Inl CanonicalDifficultyNameError)
      else (case techAny of
              None \<Rightarrow>
                (case easiestLoop parentDefaultDifficultyObjectsArray (0, 99999) of
                   Inl e \<Rightarrow> Inl e
                 | Inr (easiestDifficultyID, easiestDifficultyOrder) \<Rightarrow>
                     if easiestDifficultyID = 0
                     then Inl (Message ''Unable to find easiest parent default difficulty'')
                     else Inr easiestDifficultyID)
            | Some techNames \<Rightarrow>
                (case techAnyLoop techNames techObjectsWithDifficultyObjectsArray (0, 0) of
                   Inl e \<Rightarrow> Inl e
                 | Inr (highestDifficultyID, highestDifficultyOrder) \<Rightarrow>
                     if highestDifficultyID = 0
                     then Inl (Message ''Unable to find highestDifficultyID'')
                     else Inr highestDifficultyID)))"

section \<open>getMapIdCreationObject\<close>

record map_lengths =
  length_id :: int
  length_name :: string

text \<open>\<^verbatim>\<open>jsonCreateMapWithMod\<close>, with \<open>None\<close> for an absent property.\<close>

record jsonCreateMapWithMod =
  map_name :: string
  map_length :: string
  map_description :: "string option"
  map_notes :: "string option"
  map_minimumModVersion :: "string option"
  map_mapRemovedFromModBool :: "bool option"
  map_techAny :: "string list option"
  map_techFC :: "string list option"
  map_canonicalDifficulty :: "string option"
  map_mapperUserID :: "int option"
  map_mapperNameString :: "string option"
  map_chapter :: "int option"
  map_side :: "string option"
  map_modDifficulty :: "stringOrArray option"
  map_overallRank :: "int option"

text \<open>
  The statements on the mapper. \<^verbatim>\<open>userExists\<close> is whether the users table holds the id;
  \<^verbatim>\<open>if (mapperUserID)\<close> is false of \<^verbatim>\<open>undefined\<close> and of 0, \<^verbatim>\<open>if (mapperNameString)\<close> of
  \<^verbatim>\<open>undefined\<close> and of the empty string.
\<close>

definition setMapperNameString ::
  "string option \<Rightarrow> mapDetailsCreationObject \<Rightarrow> mapDetailsCreationObject" where
  "setMapperNameString mapperNameString obj =
     (if mapperNameString \<noteq> None \<and> mapperNameString \<noteq> Some []
      then obj\<lparr>md_mapperNameString := mapperNameString\<rparr> else obj)"

definition setMapper ::
  "(int \<Rightarrow> bool) \<Rightarrow> int option \<Rightarrow> string option \<Rightarrow> mapDetailsCreationObject
     \<Rightarrow> thrown + mapDetailsCreationObject" where
  "setMapper userExists mapperUserID mapperNameString obj =
     (case mapperUserID of
        None \<Rightarrow> Inr (setMapperNameString mapperNameString obj)
      | Some uid \<Rightarrow>
          if uid = 0 then Inr (setMapperNameString mapperNameString obj)
          else if \<not> userExists uid then Inl (InvalidMapperUserId uid)
          else Inr (obj\<lparr>md_mapperUserID := Some uid\<rparr>))"

text \<open>The statements on \<^verbatim>\<open>techAny\<close> and \<^verbatim>\<open>techFC\<close>.\<close>

definition techCreationObjects :: "bool \<Rightarrow> string list option \<Rightarrow> mapToTechCreationObject list" where
  "techCreationObjects fullClear techNames =
     (case techNames of
        None \<Rightarrow> []
      | Some names \<Rightarrow>
          map (\<lambda>techName. \<lparr>maps_details_maps_detailsTomaps_to_tech_revision = 0,
                            tech_list_connect_name = techName,
                            fullClearOnlyBool = fullClear\<rparr>) names)"

definition setTech ::
  "string list option \<Rightarrow> string list option \<Rightarrow> mapDetailsCreationObject
     \<Rightarrow> mapDetailsCreationObject" where
  "setTech techAny techFC obj =
     (if techAny \<noteq> None \<or> techFC \<noteq> None
      then obj\<lparr>md_maps_to_tech :=
                 Some (techCreationObjects False techAny @ techCreationObjects True techFC)\<rparr>
      else obj)"

text \<open>The object literal that \<^verbatim>\<open>mapIdCreationObject\<close> starts as.\<close>

definition newMapDetails ::
  "jsonCreateMapWithMod \<Rightarrow> int \<Rightarrow> int \<Rightarrow> int \<Rightarrow> submitterUser \<Rightarrow> mapDetailsCreationObject" where
  "newMapDetails mapObject canonicalDifficultyID lengthID currentTime submittingUser =
     \<lparr>md_name = map_name mapObject,
      md_canonicalDifficulty = canonicalDifficultyID,
      md_map_lengths = lengthID,
      md_description = map_description mapObject,
      md_notes = map_notes mapObject,
      md_minimumModVersion = map_minimumModVersion mapObject,
      md_mapRemovedFromModBool = map_mapRemovedFromModBool mapObject,
      md_timeSubmitted = currentTime,
      md_submittedBy = user_id submittingUser,
      md_timeApproved = None,
      md_approvedBy = None,
      md_mapperUserID = None,
      md_mapperNameString = None,
      md_chapter = None,
      md_side = None,
      md_overallRank = None,
      md_modDifficultyID = None,
      md_maps_to_tech = None\<rparr>"

text \<open>The statements on the approval, given \<^verbatim>\<open>privilegedUserBool\<close>.\<close>

definition setApproval ::
  "bool \<Rightarrow> int \<Rightarrow> submitterUser \<Rightarrow> mapDetailsCreationObject \<Rightarrow> mapDetailsCreationObject" where
  "setApproval privilegedUserBool currentTime submittingUser obj =
     (if privilegedUserBool
      then obj\<lparr>md_timeApproved := Some currentTime,
               md_approvedBy := Some (user_id submittingUser)\<rparr>
      else obj)"

text \<open>The branch on \<^verbatim>\<open>modType\<close>.\<close>

definition setChapterOrDifficulty ::
  "jsonCreateMapWithMod \<Rightarrow> mods_details_type \<Rightarrow> createParentDifficultyForMod list
     \<Rightarrow> defaultDifficultyForMod list \<Rightarrow> bool \<Rightarrow> bool \<Rightarrow> mapDetailsCreationObject
     \<Rightarrow> thrown + mapDetailsCreationObject" where
  "setChapterOrDifficulty mapObject modType customDifficultiesArray defaultDifficultyObjectsArray
       modUsesCustomDifficultiesBool modHasSubDifficultiesBool obj =
     (if modType = Normal
      then Inr (obj\<lparr>md_chapter := map_chapter mapObject, md_side := map_side mapObject\<rparr>)
      else handleNonNormalMods obj modType (map_overallRank mapObject)
             (map_modDifficulty mapObject) customDifficultiesArray
             defaultDifficultyObjectsArray modUsesCustomDifficultiesBool
             modHasSubDifficultiesBool)"

text \<open>
  The module-level \<^verbatim>\<open>submittingUser\<close> and the three reads of the database (the default
  parent difficulties and the tech list of \<^verbatim>\<open>getCanonicalDifficultyID\<close>, the lookup of the
  mapper's user id) are the first four arguments; the others are the source's, in its order.
  The steps run in the source's order, each one able to throw: the canonical difficulty,
  the length, the approval, the mapper, the chapter or mod difficulty, the tech.
\<close>

definition getMapIdCreationObject ::
  "submitterUser \<Rightarrow> difficulties list \<Rightarrow> techObject list \<Rightarrow> (int \<Rightarrow> bool)
     \<Rightarrow> jsonCreateMapWithMod \<Rightarrow> int \<Rightarrow> mods_details_type \<Rightarrow> map_lengths list
     \<Rightarrow> createParentDifficultyForMod list \<Rightarrow> defaultDifficultyForMod list \<Rightarrow> bool \<Rightarrow> bool
     \<Rightarrow> thrown + mapDetailsCreationObject" where
  "getMapIdCreationObject submittingUser parentDefaultDifficultyObjectsArray
       techObjectsWithDifficultyObjectsArray userExists
       mapObject currentTime modType lengthObjectArray customDifficultiesArray
       defaultDifficultyObjectsArray modUsesCustomDifficultiesBool modHasSubDifficultiesBool =
     (case getCanonicalDifficultyID parentDefaultDifficultyObjectsArray
             techObjectsWithDifficultyObjectsArray
             (map_canonicalDifficulty mapObject) (map_techAny mapObject) of
        Inl e \<Rightarrow> Inl e
      | Inr canonicalDifficultyID \<Rightarrow>
          (let lengthID =
                 (case find (\<lambda>l. length_name l = map_length mapObject) lengthObjectArray of
                    None \<Rightarrow> 0
                  | Some l \<Rightarrow> length_id l)
           in if lengthID = 0 then Inl LengthError
              else
                (case privilegedUser submittingUser of
                   Inl e \<Rightarrow> Inl e
                 | Inr (Inl (ErrorWithMessage e)) \<Rightarrow> Inl (Caught e)
                 | Inr (Inr privilegedUserBool) \<Rightarrow>
                     (case setMapper userExists (map_mapperUserID mapObject)
                             (map_mapperNameString mapObject)
                             (setApproval privilegedUserBool currentTime submittingUser
                                (newMapDetails mapObject canonicalDifficultyID lengthID
                                   currentTime submittingUser)) of
                        Inl e \<Rightarrow> Inl e
                      | Inr withMapper \<Rightarrow>
                          (case setChapterOrDifficulty mapObject modType customDifficultiesArray
                                  defaultDifficultyObjectsArray modUsesCustomDifficultiesBool
                                  modHasSubDifficultiesBool withMapper of
                             Inl e \<Rightarrow> Inl e
                           | Inr withDifficulty \<Rightarrow>
                               Inr (setTech (map_techAny mapObject) (map_techFC mapObject)
                                      withDifficulty))))))"

section \<open>The identity lookups\<close>

text \<open>
  A JavaScript number: \<^verbatim>\<open>NaN\<close>, an infinity, or a finite value.
\<close>

datatype jsNumber = NaN | PosInfinity | NegInfinity | Finite real

text \<open>
  The response of the identity service: \<^verbatim>\<open>axiosResponse.status\<close> and \<^verbatim>\<open>axiosResponse.data\<close>,
  an array of JSON values of a type \<open>'v\<close> that the code does not look into.
\<close>

record 'v axiosResponse =
  response_status :: int
  response_data :: "'v list"

text \<open>
  \<^verbatim>\<open>axios\<close> is the request as a function of what the URL is built from; it answers with
  a response or throws. \<^verbatim>\<open>String\<close> and \<^verbatim>\<open>Number\<close> are the language's conversions, applied
  to element 0 of the data (\<open>None\<close> when there is none), and are arguments.
\<close>

definition getGamebananaUsernameById ::
  "(int \<Rightarrow> thrown + 'v axiosResponse) \<Rightarrow> ('v option \<Rightarrow> string) \<Rightarrow> int
     \<Rightarrow> thrown + (errorWithMessage + string)" where
  "getGamebananaUsernameById axios jsString gamebananaID =
     tryCatch (case axios gamebananaID of
                 Inl e \<Rightarrow> Inl e
               | Inr axiosResponse \<Rightarrow>
                   if response_status axiosResponse \<noteq> 200 then Inl GamebananaNotResponding
                   else Inr (jsString (elementAt (response_data axiosResponse) 0)))"

definition getGamebananaIdByUsername ::
  "(string \<Rightarrow> thrown + 'v axiosResponse) \<Rightarrow> ('v option \<Rightarrow> jsNumber) \<Rightarrow> string
     \<Rightarrow> thrown + (errorWithMessage + jsNumber)" where
  "getGamebananaIdByUsername axios jsNumberOf gamebananaUsername =
     tryCatch (case axios gamebananaUsername of
                 Inl e \<Rightarrow> Inl e
               | Inr axiosResponse \<Rightarrow>
                   if response_status axiosResponse \<noteq> 200 then Inl GamebananaNotResponding
                   else (let gamebananaID = jsNumberOf (elementAt (response_data axiosResponse) 0)
                         in if gamebananaID = NaN then Inr (Finite (- 1))
                            else Inr gamebananaID))"

section \<open>The loops of getDifficultyArrays without accumulators\<close>

text \<open>
  What the two loops append to their accumulators, as functions of the remaining input
  and the current index; \<open>childDifficultyLoop_eq\<close> and \<open>parentDifficultyLoop_eq\<close> below
  prove them equal to the loops.
\<close>

fun childRecords :: "int \<Rightarrow> string list \<Rightarrow> createChildDifficultyForMod list" where
  "childRecords k [] = []"
| "childRecords k (c # cs) = \<lparr>child_name = c, child_order = k\<rparr> # childRecords (k + 1) cs"

fun parentRecords :: "int \<Rightarrow> stringOrArray list \<Rightarrow> createParentDifficultyForMod list" where
  "parentRecords i [] = []"
| "parentRecords i (Str s # rest) =
     \<lparr>parent_name = Some s, parent_order = i + 1, other_difficulties = None\<rparr>
     # parentRecords (i + 1) rest"
| "parentRecords i (Arr a # rest) =
     \<lparr>parent_name = elementAt a 0, parent_order = i + 1,
      other_difficulties = Some (childRecords 1 (drop 1 a))\<rparr>
     # parentRecords (i + 1) rest"

fun flatNames :: "stringOrArray list \<Rightarrow> string option list" where
  "flatNames [] = []"
| "flatNames (Str s # rest) = Some s # flatNames rest"
| "flatNames (Arr a # rest) = map Some (drop 1 a) @ elementAt a 0 # flatNames rest"

fun isArr :: "stringOrArray \<Rightarrow> bool" where
  "isArr (Arr a) = True"
| "isArr (Str s) = False"

text \<open>
  The two parts of a submission element: the name of the parent (element 0 of an array)
  and the names of its children (the elements after it).
\<close>

fun entryName :: "stringOrArray \<Rightarrow> string option" where
  "entryName (Str s) = Some s"
| "entryName (Arr a) = elementAt a 0"

fun entryChildren :: "stringOrArray \<Rightarrow> string list" where
  "entryChildren (Str s) = []"
| "entryChildren (Arr a) = drop 1 a"

text \<open>
  The submissions of the shape the data model describes: a bare name is not empty; an
  array holds the parent name and at least one child name, none of them empty.
\<close>

fun validElement :: "stringOrArray \<Rightarrow> bool" where
  "validElement (Str s) = (s \<noteq> [])"
| "validElement (Arr a) = (2 \<le> length a \<and> [] \<notin> set a)"

section \<open>Example values\<close>

definition mediumTree :: "createParentDifficultyForMod list" where
  "mediumTree =
     [\<lparr>parent_name = Some ''Medium'', parent_order = 1,
       other_difficulties = Some [\<lparr>child_name = ''Medium+'', child_order = 1\<rparr>]\<rparr>]"

definition flatTree :: "createParentDifficultyForMod list" where
  "flatTree = [\<lparr>parent_name = Some ''Medium'', parent_order = 1, other_difficulties = None\<rparr>]"

definition steve :: submitterUser where
  "steve =
     \<lparr>user_id = 5, displayName = ''steve'', discordID = ''5'', discordUsername = ''steve'',
      discordDiscrim = ''5555'', displayDiscord = False, timeCreated = 1, permissions = [],
      permissionsArray = [], accountStatus = ''Active'', timeDeletedOrBanned = None\<rparr>"

definition summit :: jsonCreateMapWithMod where
  "summit =
     \<lparr>map_name = ''Summit'', map_length = ''Short'', map_description = None,
      map_notes = None, map_minimumModVersion = None, map_mapRemovedFromModBool = None,
      map_techAny = None, map_techFC = None, map_canonicalDifficulty = Some ''Easy'',
      map_mapperUserID = None, map_mapperNameString = Some ''steve'', map_chapter = Some 1,
      map_side = Some ''A'', map_modDifficulty = None, map_overallRank = None\<rparr>"

definition easyRow :: difficulties where
  "easyRow =
     \<lparr>difficulty_id = 1, difficulty_name = ''Easy'', difficulty_order = 1,
      parentDifficultyID = None\<rparr>"

definition shortLength :: map_lengths where
  "shortLength = \<lparr>length_id = 1, length_name = ''Short''\<rparr>"

section \<open>Properties of getDifficultyArrays\<close>

lemma childDifficultyLoop_eq:
  "childDifficultyLoop cs k (acc, ns) = (acc @ childRecords k cs, ns @ map Some cs)"
  by (induction cs arbitrary: k acc ns) simp_all

lemma parentDifficultyLoop_eq:
  "parentDifficultyLoop ds i (ns, data, flag) =
     (ns @ flatNames ds, data @ parentRecords i ds, flag \<or> list_ex isArr ds)"
proof (induction ds arbitrary: i ns data flag)
  case Nil
  show ?case by simp
next
  case (Cons e ds)
  show ?case by (cases e) (simp_all add: Cons.IH childDifficultyLoop_eq)
qed

lemma getDifficultyArrays_eq:
  "getDifficultyArrays ds = Inr (Inr (flatNames ds, parentRecords 0 ds, list_ex isArr ds))"
  by (simp add: getDifficultyArrays_def tryCatch_def parentDifficultyLoop_eq)

lemma length_childRecords [simp]: "length (childRecords k cs) = length cs"
  by (induction cs arbitrary: k) simp_all

lemma nth_childRecords:
  "j < length cs \<Longrightarrow> childRecords k cs ! j = \<lparr>child_name = cs ! j, child_order = k + int j\<rparr>"
proof (induction cs arbitrary: k j)
  case Nil
  then show ?case by simp
next
  case (Cons c cs)
  then show ?case by (cases j) simp_all
qed

lemma length_parentRecords [simp]: "length (parentRecords i ds) = length ds"
  by (induction i ds rule: parentRecords.induct) simp_all

lemma nth_parentRecords:
  "n < length ds \<Longrightarrow>
     parentRecords i ds ! n =
       (case ds ! n of
          Str s \<Rightarrow>
            \<lparr>parent_name = Some s, parent_order = i + int n + 1, other_difficulties = None\<rparr>
        | Arr a \<Rightarrow>
            \<lparr>parent_name = elementAt a 0, parent_order = i + int n + 1,
             other_difficulties = Some (childRecords 1 (drop 1 a))\<rparr>)"
proof (induction i ds arbitrary: n rule: parentRecords.induct)
  case (1 i)
  then show ?case by simp
next
  case (2 i s rest)
  then show ?case by (cases n) (simp_all split: stringOrArray.split)
next
  case (3 i a rest)
  then show ?case by (cases n) (simp_all split: stringOrArray.split)
qed

text \<open>
  C6. Whatever the submission, the creation record at position \<open>i\<close> of the outer sequence
  (counted from 0) has order \<open>i + 1\<close>; for an array element its child records are one per
  element after the parent name, the one at position \<open>j\<close> among them (counted from 0)
  carrying that element's name and order \<open>j + 1\<close>.
\<close>

theorem order_assignment:
  assumes "getDifficultyArrays ds = Inr (Inr (names, data, flag))"
  shows "length data = length ds \<and>
         (\<forall>i<length ds.
            parent_order (data ! i) = int i + 1 \<and>
            (case ds ! i of
               Str s \<Rightarrow> parent_name (data ! i) = Some s \<and> other_difficulties (data ! i) = None
             | Arr a \<Rightarrow>
                 parent_name (data ! i) = elementAt a 0 \<and>
                 (\<exists>children. other_difficulties (data ! i) = Some children \<and>
                    length children = length a - 1 \<and>
                    (\<forall>j<length children.
                       child_name (children ! j) = a ! (j + 1) \<and>
                       child_order (children ! j) = int j + 1))))"
proof -
  from assms have data: "data = parentRecords 0 ds"
    by (simp add: getDifficultyArrays_eq)
  show ?thesis
  proof (intro conjI allI impI)
    show "length data = length ds" by (simp add: data)
  next
    fix i assume "i < length ds"
    then show "parent_order (data ! i) = int i + 1"
      by (simp add: data nth_parentRecords split: stringOrArray.split)
  next
    fix i assume i: "i < length ds"
    show "case ds ! i of
               Str s \<Rightarrow> parent_name (data ! i) = Some s \<and> other_difficulties (data ! i) = None
             | Arr a \<Rightarrow>
                 parent_name (data ! i) = elementAt a 0 \<and>
                 (\<exists>children. other_difficulties (data ! i) = Some children \<and>
                    length children = length a - 1 \<and>
                    (\<forall>j<length children.
                       child_name (children ! j) = a ! (j + 1) \<and>
                       child_order (children ! j) = int j + 1))"
    proof (cases "ds ! i")
      case (Str s)
      with i show ?thesis by (simp add: data nth_parentRecords)
    next
      case (Arr a)
      with i show ?thesis by (simp add: data nth_parentRecords nth_childRecords)
    qed
  qed
qed

theorem order_assignment_witness:
  "getDifficultyArrays [Str ''Easy'', Arr [''Medium'', ''Medium+'', ''Medium++'']] =
     Inr (Inr ([Some ''Easy'', Some ''Medium+'', Some ''Medium++'', Some ''Medium''],
               [\<lparr>parent_name = Some ''Easy'', parent_order = 1, other_difficulties = None\<rparr>,
                \<lparr>parent_name = Some ''Medium'', parent_order = 2,
                 other_difficulties =
                   Some [\<lparr>child_name = ''Medium+'', child_order = 1\<rparr>,
                         \<lparr>child_name = ''Medium++'', child_order = 2\<rparr>]\<rparr>],
               True)) \<and>
   parent_order
     ([\<lparr>parent_name = Some ''Easy'', parent_order = 1, other_difficulties = None\<rparr>,
       \<lparr>parent_name = Some ''Medium'', parent_order = 2,
        other_difficulties =
          Some [\<lparr>child_name = ''Medium+'', child_order = 1\<rparr>,
                \<lparr>child_name = ''Medium++'', child_order = 2\<rparr>]\<rparr>] ! 1) = int 1 + 1"
proof -
  have h: "getDifficultyArrays [Str ''Easy'', Arr [''Medium'', ''Medium+'', ''Medium++'']] =
     Inr (Inr ([Some ''Easy'', Some ''Medium+'', Some ''Medium++'', Some ''Medium''],
               [\<lparr>parent_name = Some ''Easy'', parent_order = 1, other_difficulties = None\<rparr>,
                \<lparr>parent_name = Some ''Medium'', parent_order = 2,
                 other_difficulties =
                   Some [\<lparr>child_name = ''Medium+'', child_order = 1\<rparr>,
                         \<lparr>child_name = ''Medium++'', child_order = 2\<rparr>]\<rparr>],
               True))"
    by (simp add: getDifficultyArrays_def tryCatch_def elementAt_def)
  from order_assignment [OF h] have
    "\<forall>i<length [Str ''Easy'', Arr [''Medium'', ''Medium+'', ''Medium++'']].
       parent_order
         ([\<lparr>parent_name = Some ''Easy'', parent_order = 1, other_difficulties = None\<rparr>,
           \<lparr>parent_name = Some ''Medium'', parent_order = 2,
            other_difficulties =
              Some [\<lparr>child_name = ''Medium+'', child_order = 1\<rparr>,
                    \<lparr>child_name = ''Medium++'', child_order = 2\<rparr>]\<rparr>] ! i) = int i + 1"
    by blast
  then have
    "parent_order
       ([\<lparr>parent_name = Some ''Easy'', parent_order = 1, other_difficulties = None\<rparr>,
         \<lparr>parent_name = Some ''Medium'', parent_order = 2,
          other_difficulties =
            Some [\<lparr>child_name = ''Medium+'', child_order = 1\<rparr>,
                  \<lparr>child_name = ''Medium++'', child_order = 2\<rparr>]\<rparr>] ! 1) = int 1 + 1"
    by (rule allE) simp
  with h show ?thesis by (rule conjI)
qed

text \<open>
  C8. On every input of its type the parser throws nothing and returns its triple, not an
  error value: one creation record per element of the submission, and the flag set exactly
  when some element is an array. Nothing is checked: an empty inner array, an empty name
  and a repeated name all go through.
\<close>

theorem getDifficultyArrays_total:
  "\<exists>names data flag.
     getDifficultyArrays ds = Inr (Inr (names, data, flag)) \<and>
     length data = length ds \<and> flag = list_ex isArr ds"
  by (simp add: getDifficultyArrays_eq)

lemma getDifficultyArrays_malformed:
  "getDifficultyArrays [Arr [], Str [], Str ''A'', Str ''A''] =
     Inr (Inr ([None, Some [], Some ''A'', Some ''A''],
               [\<lparr>parent_name = None, parent_order = 1, other_difficulties = Some []\<rparr>,
                \<lparr>parent_name = Some [], parent_order = 2, other_difficulties = None\<rparr>,
                \<lparr>parent_name = Some ''A'', parent_order = 3, other_difficulties = None\<rparr>,
                \<lparr>parent_name = Some ''A'', parent_order = 4, other_difficulties = None\<rparr>],
               True))"
  by (simp add: getDifficultyArrays_def tryCatch_def elementAt_def)

section \<open>Properties of getSortedDifficultyNames\<close>

lemma partitionDifficulties_parents:
  "fst (partitionDifficulties rows (ps, ss)) =
     ps @ filter (\<lambda>d. parentDifficultyID d = None) rows"
proof (induction rows arbitrary: ps ss)
  case Nil
  show ?case by simp
next
  case (Cons d rows)
  show ?case
    by (cases "parentDifficultyID d") (simp_all add: Cons.IH split: prod.split)
qed

lemma checkContinuous_Str_empty:
  "Str [] \<in> set xs \<Longrightarrow>
     \<exists>e. checkContinuous m xs = Some e \<and>
         (e = ParentOrdersNotContinuous m \<or> (\<exists>p. e = ChildOrdersNotContinuous p m))"
  by (induction m xs rule: checkContinuous.induct) auto

lemma formatParent_missing:
  assumes "\<forall>d\<in>set ps. difficulty_order d \<noteq> k"
  shows "formatParent ps ss k = Str []"
proof -
  have "find (\<lambda>d. difficulty_order d = k) ps = None"
    using assms by (simp add: find_None_iff)
  then have fp: "findParent k ps = (None, [])"
    by (simp add: findParent_def)
  have "find (\<lambda>siblingArray. (None :: int option) \<noteq> None \<and>
                 firstParentDifficultyID siblingArray = None) ss = None"
    by (simp add: find_None_iff)
  then show ?thesis
    by (simp add: formatParent_def fp)
qed

text \<open>
  C5. Let the parents be the rows whose \<^verbatim>\<open>parentDifficultyID\<close> is null. If some order \<open>k\<close>
  between 1 and the number of parents is the order of no parent, the reconstruction
  returns nothing and throws one of its two "orders are not continuous" errors.
\<close>

theorem parent_order_gap_raises:
  assumes "1 \<le> k"
    and "k \<le> int (length (filter (\<lambda>d. parentDifficultyID d = None) rows))"
    and "\<forall>d\<in>set rows. parentDifficultyID d = None \<longrightarrow> difficulty_order d \<noteq> k"
  shows "\<exists>e. getSortedDifficultyNames rows modID = Inl e \<and>
             (e = ParentOrdersNotContinuous modID \<or>
              (\<exists>p. e = ChildOrdersNotContinuous p modID))"
proof -
  obtain ps ss where part: "partitionDifficulties rows ([], []) = (ps, ss)"
    by (cases "partitionDifficulties rows ([], [])")
  have ps: "ps = filter (\<lambda>d. parentDifficultyID d = None) rows"
    using partitionDifficulties_parents [of rows "[]" "[]"] part by simp
  have "\<forall>d\<in>set ps. difficulty_order d \<noteq> k"
    using assms(3) by (simp add: ps)
  then have "formatParent ps ss k = Str []"
    by (rule formatParent_missing)
  moreover have "k \<in> set [1..int (length ps)]"
    using assms(1,2) by (simp add: ps)
  ultimately have "Str [] \<in> set (map (formatParent ps ss) [1..int (length ps)])"
    by (metis image_eqI set_map)
  from checkContinuous_Str_empty [OF this, of modID] show ?thesis
    by (auto simp: getSortedDifficultyNames_def part Let_def)
qed

theorem parent_order_gap_raises_witness:
  "(1::int) \<le> 2 \<and>
   2 \<le> int (length (filter (\<lambda>d. parentDifficultyID d = None)
                      [easyRow,
                       \<lparr>difficulty_id = 2, difficulty_name = ''Hard'', difficulty_order = 3,
                        parentDifficultyID = None\<rparr>,
                       \<lparr>difficulty_id = 3, difficulty_name = ''Expert'', difficulty_order = 4,
                        parentDifficultyID = None\<rparr>])) \<and>
   (\<exists>e. getSortedDifficultyNames
           [easyRow,
            \<lparr>difficulty_id = 2, difficulty_name = ''Hard'', difficulty_order = 3,
             parentDifficultyID = None\<rparr>,
            \<lparr>difficulty_id = 3, difficulty_name = ''Expert'', difficulty_order = 4,
             parentDifficultyID = None\<rparr>] 7 = Inl e \<and>
        (e = ParentOrdersNotContinuous 7 \<or> (\<exists>p. e = ChildOrdersNotContinuous p 7)))"
proof -
  let ?rows = "[easyRow,
            \<lparr>difficulty_id = 2, difficulty_name = ''Hard'', difficulty_order = 3,
             parentDifficultyID = None\<rparr>,
            \<lparr>difficulty_id = 3, difficulty_name = ''Expert'', difficulty_order = 4,
             parentDifficultyID = None\<rparr>]"
  have h1: "(1::int) \<le> 2" by simp
  have h2: "2 \<le> int (length (filter (\<lambda>d. parentDifficultyID d = None) ?rows))"
    by (simp add: easyRow_def)
  have h3: "\<forall>d\<in>set ?rows. parentDifficultyID d = None \<longrightarrow> difficulty_order d \<noteq> 2"
    by (simp add: easyRow_def)
  from parent_order_gap_raises [OF h1 h2 h3, of 7] h1 h2 show ?thesis
    by blast
qed

lemma parent_order_gap_example:
  "getSortedDifficultyNames
     [easyRow,
      \<lparr>difficulty_id = 2, difficulty_name = ''Hard'', difficulty_order = 3,
       parentDifficultyID = None\<rparr>,
      \<lparr>difficulty_id = 3, difficulty_name = ''Expert'', difficulty_order = 4,
       parentDifficultyID = None\<rparr>] 7 = Inl (ParentOrdersNotContinuous 7)"
  by (simp add: getSortedDifficultyNames_def formatParent_def findParent_def childrenNames_def
                easyRow_def upto.simps)

text \<open>
  C2. Stored rows in which Medium has two children, with orders 1 and 3: no child has
  order 2. The loop over \<^verbatim>\<open>siblingOrder\<close> pushes nothing for an order it does not find, so
  no empty name reaches the final check, whose message for children ("Child difficulty
  orders ... are not continuous") is never produced by a gap: the reconstruction returns
  the parent with the one child of order 1.
\<close>

theorem child_order_gap_not_raised:
  "getSortedDifficultyNames
     [\<lparr>difficulty_id = 1, difficulty_name = ''Medium'', difficulty_order = 1,
       parentDifficultyID = None\<rparr>,
      \<lparr>difficulty_id = 2, difficulty_name = ''Medium+'', difficulty_order = 1,
       parentDifficultyID = Some 1\<rparr>,
      \<lparr>difficulty_id = 3, difficulty_name = ''Medium++'', difficulty_order = 3,
       parentDifficultyID = Some 1\<rparr>] modID
   = Inr [Arr [''Medium'', ''Medium+'']]"
  by (simp add: getSortedDifficultyNames_def formatParent_def findParent_def childrenNames_def
                upto.simps)

text \<open>
  C3, as the spec states it: the flat name list of the example would be
  Easy, Medium, Medium+, Hard. The parser pushes the children of an array before its
  parent, so the list differs (the other two components are the ones it returns).
\<close>

theorem worked_example_flat_names_counterexample:
  "getDifficultyArrays [Str ''Easy'', Arr [''Medium'', ''Medium+''], Str ''Hard''] \<noteq>
     Inr (Inr ([Some ''Easy'', Some ''Medium'', Some ''Medium+'', Some ''Hard''],
               [\<lparr>parent_name = Some ''Easy'', parent_order = 1, other_difficulties = None\<rparr>,
                \<lparr>parent_name = Some ''Medium'', parent_order = 2,
                 other_difficulties = Some [\<lparr>child_name = ''Medium+'', child_order = 1\<rparr>]\<rparr>,
                \<lparr>parent_name = Some ''Hard'', parent_order = 3, other_difficulties = None\<rparr>],
               True))"
  by (simp add: getDifficultyArrays_def tryCatch_def elementAt_def)

text \<open>
  C3, amended. On the example the parser returns the flat name list
  Easy, Medium+, Medium, Hard, the nested creation list with parent orders 1, 2, 3 and
  Medium+ as child of order 1 of Medium, and the flag true; the store turns the creation
  list into four rows; and the reconstruction of these rows is the submission.
\<close>

theorem worked_example:
  "getDifficultyArrays [Str ''Easy'', Arr [''Medium'', ''Medium+''], Str ''Hard''] =
     Inr (Inr ([Some ''Easy'', Some ''Medium+'', Some ''Medium'', Some ''Hard''],
               [\<lparr>parent_name = Some ''Easy'', parent_order = 1, other_difficulties = None\<rparr>,
                \<lparr>parent_name = Some ''Medium'', parent_order = 2,
                 other_difficulties = Some [\<lparr>child_name = ''Medium+'', child_order = 1\<rparr>]\<rparr>,
                \<lparr>parent_name = Some ''Hard'', parent_order = 3, other_difficulties = None\<rparr>],
               True)) \<and>
   persistDifficulties 1
     [\<lparr>parent_name = Some ''Easy'', parent_order = 1, other_difficulties = None\<rparr>,
      \<lparr>parent_name = Some ''Medium'', parent_order = 2,
       other_difficulties = Some [\<lparr>child_name = ''Medium+'', child_order = 1\<rparr>]\<rparr>,
      \<lparr>parent_name = Some ''Hard'', parent_order = 3, other_difficulties = None\<rparr>] =
     Some [\<lparr>difficulty_id = 1, difficulty_name = ''Easy'', difficulty_order = 1,
            parentDifficultyID = None\<rparr>,
           \<lparr>difficulty_id = 2, difficulty_name = ''Medium'', difficulty_order = 2,
            parentDifficultyID = None\<rparr>,
           \<lparr>difficulty_id = 3, difficulty_name = ''Medium+'', difficulty_order = 1,
            parentDifficultyID = Some 2\<rparr>,
           \<lparr>difficulty_id = 4, difficulty_name = ''Hard'', difficulty_order = 3,
            parentDifficultyID = None\<rparr>] \<and>
   getSortedDifficultyNames
     [\<lparr>difficulty_id = 1, difficulty_name = ''Easy'', difficulty_order = 1,
       parentDifficultyID = None\<rparr>,
      \<lparr>difficulty_id = 2, difficulty_name = ''Medium'', difficulty_order = 2,
       parentDifficultyID = None\<rparr>,
      \<lparr>difficulty_id = 3, difficulty_name = ''Medium+'', difficulty_order = 1,
       parentDifficultyID = Some 2\<rparr>,
      \<lparr>difficulty_id = 4, difficulty_name = ''Hard'', difficulty_order = 3,
       parentDifficultyID = None\<rparr>] modID =
     Inr [Str ''Easy'', Arr [''Medium'', ''Medium+''], Str ''Hard'']"
proof (intro conjI)
  show "getDifficultyArrays [Str ''Easy'', Arr [''Medium'', ''Medium+''], Str ''Hard''] =
     Inr (Inr ([Some ''Easy'', Some ''Medium+'', Some ''Medium'', Some ''Hard''],
               [\<lparr>parent_name = Some ''Easy'', parent_order = 1, other_difficulties = None\<rparr>,
                \<lparr>parent_name = Some ''Medium'', parent_order = 2,
                 other_difficulties = Some [\<lparr>child_name = ''Medium+'', child_order = 1\<rparr>]\<rparr>,
                \<lparr>parent_name = Some ''Hard'', parent_order = 3, other_difficulties = None\<rparr>],
               True))"
    by (simp add: getDifficultyArrays_def tryCatch_def elementAt_def)
next
  show "persistDifficulties 1
     [\<lparr>parent_name = Some ''Easy'', parent_order = 1, other_difficulties = None\<rparr>,
      \<lparr>parent_name = Some ''Medium'', parent_order = 2,
       other_difficulties = Some [\<lparr>child_name = ''Medium+'', child_order = 1\<rparr>]\<rparr>,
      \<lparr>parent_name = Some ''Hard'', parent_order = 3, other_difficulties = None\<rparr>] =
     Some [\<lparr>difficulty_id = 1, difficulty_name = ''Easy'', difficulty_order = 1,
            parentDifficultyID = None\<rparr>,
           \<lparr>difficulty_id = 2, difficulty_name = ''Medium'', difficulty_order = 2,
            parentDifficultyID = None\<rparr>,
           \<lparr>difficulty_id = 3, difficulty_name = ''Medium+'', difficulty_order = 1,
            parentDifficultyID = Some 2\<rparr>,
           \<lparr>difficulty_id = 4, difficulty_name = ''Hard'', difficulty_order = 3,
            parentDifficultyID = None\<rparr>]"
    by (simp add: createdChildren_def)
next
  show "getSortedDifficultyNames
     [\<lparr>difficulty_id = 1, difficulty_name = ''Easy'', difficulty_order = 1,
       parentDifficultyID = None\<rparr>,
      \<lparr>difficulty_id = 2, difficulty_name = ''Medium'', difficulty_order = 2,
       parentDifficultyID = None\<rparr>,
      \<lparr>difficulty_id = 3, difficulty_name = ''Medium+'', difficulty_order = 1,
       parentDifficultyID = Some 2\<rparr>,
      \<lparr>difficulty_id = 4, difficulty_name = ''Hard'', difficulty_order = 3,
       parentDifficultyID = None\<rparr>] modID =
     Inr [Str ''Easy'', Arr [''Medium'', ''Medium+''], Str ''Hard'']"
    by (simp add: getSortedDifficultyNames_def formatParent_def findParent_def
                  childrenNames_def upto.simps)
qed

section \<open>Properties of handleNonNormalMods\<close>

text \<open>
  C4. A mod whose custom tree is Medium with the one child Medium+, and a map that claims
  the pair Medium, Impossible. The loop leaves \<^verbatim>\<open>validModDifficultyBool\<close> false, and the
  function ends without reading it: nothing is thrown and the creation object comes back
  as it was.
\<close>

theorem absent_pair_not_rejected:
  "customSubDifficultyLoop mediumTree [''Medium'', ''Impossible''] = False \<and>
   handleNonNormalMods obj OtherModType None (Some (Arr [''Medium'', ''Impossible'']))
     mediumTree [] True True = Inr obj"
  by (simp add: handleNonNormalMods_def mediumTree_def elementAt_def)

text \<open>
  More generally, on a mod with custom sub-difficulties no array is rejected, whatever
  it names.
\<close>

lemma array_never_rejected:
  "customDifficultiesArray \<noteq> [] \<Longrightarrow>
     handleNonNormalMods obj modType rank (Some (Arr a)) customDifficultiesArray defaults
       True True =
     Inr (if modType = Contest then obj\<lparr>md_overallRank := rank\<rparr> else obj)"
  by (simp add: handleNonNormalMods_def Let_def)

text \<open>
  C7, as the spec states it: a mod that uses custom difficulties and has none (so no
  sub-difficulties either), and a map that supplies a pair. The guard on the empty array
  throws its own message before any check of the shape.
\<close>

theorem depth_mismatch_empty_tree_counterexample:
  "handleNonNormalMods (newMapDetails summit 1 1 100 steve) OtherModType None
     (Some (Arr [''Medium'', ''Medium+''])) [] [] True False \<noteq> Inl InvalidMapDifficulty"
  by (simp add: handleNonNormalMods_def)

text \<open>
  C7, amended. Take a call in which the map's \<^verbatim>\<open>modDifficulty\<close> is a bare name and the mod
  uses the default tree or its custom tree has sub-difficulties, or in which the map
  supplies an array and the mod uses a custom tree without sub-difficulties. If the bare
  name is the empty string, or the array of the tree in use is not empty (the custom one
  if the mod uses custom difficulties, the default one otherwise), the map is rejected with
  \<^verbatim>\<open>invalidMapDifficultyErrorMessage\<close>. Otherwise, the array of the tree in use being empty
  and \<^verbatim>\<open>modDifficulty\<close> not the empty string, the function throws the message of its
  guard on that array instead.
\<close>

theorem depth_mismatch_rejected:
  assumes "(\<exists>s. md = Some (Str s)) \<and> (usesCustom \<longrightarrow> hasSub) \<or>
           (\<exists>a. md = Some (Arr a)) \<and> usesCustom \<and> \<not> hasSub"
  shows "handleNonNormalMods obj modType rank md custom defaults usesCustom hasSub =
           (if md = Some (Str []) \<or> (if usesCustom then custom \<noteq> [] else defaults \<noteq> [])
            then Inl InvalidMapDifficulty
            else if usesCustom then Inl (Message ''customDifficultiesArray is empty'')
            else Inl (Message ''defaultDifficultyObjectsArray is empty''))"
proof (cases "md = Some (Str [])")
  case True
  then show ?thesis
    by (simp add: handleNonNormalMods_def Let_def)
next
  case blank: False
  show ?thesis
  proof (cases "if usesCustom then custom \<noteq> [] else defaults \<noteq> []")
    case True
    with assms blank show ?thesis
      by (cases custom) (auto simp: handleNonNormalMods_def Let_def split: if_splits)
  next
    case False
    with assms blank show ?thesis
      by (auto simp: handleNonNormalMods_def Let_def split: if_splits)
  qed
qed

theorem depth_mismatch_rejected_witness:
  "handleNonNormalMods (newMapDetails summit 1 1 100 steve) Contest (Some 3)
     (Some (Str ''Medium'')) mediumTree [] True True = Inl InvalidMapDifficulty \<and>
   handleNonNormalMods (newMapDetails summit 1 1 100 steve) Contest (Some 3)
     (Some (Arr [''Medium'', ''Medium+''])) flatTree [] True False = Inl InvalidMapDifficulty \<and>
   handleNonNormalMods (newMapDetails summit 1 1 100 steve) Contest (Some 3)
     (Some (Arr [''Medium'', ''Medium+''])) [] [] True False =
     Inl (Message ''customDifficultiesArray is empty'') \<and>
   handleNonNormalMods (newMapDetails summit 1 1 100 steve) Contest (Some 3)
     (Some (Str ''Medium'')) [] [] False True =
     Inl (Message ''defaultDifficultyObjectsArray is empty'') \<and>
   handleNonNormalMods (newMapDetails summit 1 1 100 steve) Contest (Some 3)
     (Some (Str [])) [] [] True True = Inl InvalidMapDifficulty"
proof -
  let ?obj = "newMapDetails summit 1 1 100 steve"
  let ?none = "[] :: defaultDifficultyForMod list"
  have a: "(\<exists>s. Some (Str ''Medium'') = Some (Str s)) \<and> (True \<longrightarrow> True) \<or>
           (\<exists>a. Some (Str ''Medium'') = Some (Arr a)) \<and> True \<and> \<not> True"
    by simp
  have b: "(\<exists>s. Some (Arr [''Medium'', ''Medium+'']) = Some (Str s)) \<and> (True \<longrightarrow> False) \<or>
           (\<exists>a. Some (Arr [''Medium'', ''Medium+'']) = Some (Arr a)) \<and> True \<and> \<not> False"
    by simp
  have c: "(\<exists>s. Some (Str ''Medium'') = Some (Str s)) \<and> (False \<longrightarrow> True) \<or>
           (\<exists>a. Some (Str ''Medium'') = Some (Arr a)) \<and> False \<and> \<not> True"
    by simp
  have d: "(\<exists>s. Some (Str []) = Some (Str s)) \<and> (True \<longrightarrow> True) \<or>
           (\<exists>a. Some (Str []) = Some (Arr a)) \<and> True \<and> \<not> True"
    by simp
  have "handleNonNormalMods ?obj Contest (Some 3) (Some (Str ''Medium'')) mediumTree ?none
          True True = Inl InvalidMapDifficulty"
    using depth_mismatch_rejected [OF a, of ?obj Contest "Some 3" mediumTree ?none]
    by (simp add: mediumTree_def)
  moreover
  have "handleNonNormalMods ?obj Contest (Some 3) (Some (Arr [''Medium'', ''Medium+'']))
          flatTree ?none True False = Inl InvalidMapDifficulty"
    using depth_mismatch_rejected [OF b, of ?obj Contest "Some 3" flatTree ?none]
    by (simp add: flatTree_def)
  moreover
  have "handleNonNormalMods ?obj Contest (Some 3) (Some (Arr [''Medium'', ''Medium+'']))
          [] ?none True False = Inl (Message ''customDifficultiesArray is empty'')"
    using depth_mismatch_rejected [OF b, of ?obj Contest "Some 3" "[]" ?none]
    by simp
  moreover
  have "handleNonNormalMods ?obj Contest (Some 3) (Some (Str ''Medium'')) [] ?none
          False True = Inl (Message ''defaultDifficultyObjectsArray is empty'')"
    using depth_mismatch_rejected [OF c, of ?obj Contest "Some 3" "[]" ?none]
    by simp
  moreover
  have "handleNonNormalMods ?obj Contest (Some 3) (Some (Str [])) [] ?none
          True True = Inl InvalidMapDifficulty"
    using depth_mismatch_rejected [OF d, of ?obj Contest "Some 3" "[]" ?none]
    by simp
  ultimately show ?thesis
    by (intro conjI)
qed

section \<open>Properties of getMapIdCreationObject\<close>

lemma permLoop_iff:
  "permLoop ps \<longleftrightarrow>
     (\<exists>perm\<in>set ps. perm = ''Super_Admin'' \<or> perm = ''Admin'' \<or> perm = ''Map_Moderator'')"
  by (induction ps) auto

lemma privilegedUser_eq:
  "privilegedUser u =
     Inr (Inr (\<exists>perm\<in>set (permissionsArray u).
                 perm = ''Super_Admin'' \<or> perm = ''Admin'' \<or> perm = ''Map_Moderator''))"
  by (simp add: privilegedUser_def tryCatch_def Let_def permLoop_iff)

lemma setMapper_approval:
  "setMapper userExists uid nm obj = Inr obj' \<Longrightarrow>
     md_timeApproved obj' = md_timeApproved obj \<and> md_approvedBy obj' = md_approvedBy obj"
  by (auto simp: setMapper_def setMapperNameString_def split: option.splits if_splits)

lemma defaultDifficultyLoop_approval:
  "defaultDifficultyLoop ds md obj = (b, obj') \<Longrightarrow>
     md_timeApproved obj' = md_timeApproved obj \<and> md_approvedBy obj' = md_approvedBy obj"
  by (induction ds md obj rule: defaultDifficultyLoop.induct)
     (auto split: option.splits if_splits)

lemma handleNonNormalMods_approval:
  assumes "handleNonNormalMods obj modType rank md custom defaults usesCustom hasSub = Inr obj'"
  shows "md_timeApproved obj' = md_timeApproved obj \<and> md_approvedBy obj' = md_approvedBy obj"
proof -
  define obj0 where
    "obj0 = (if modType = Contest then obj\<lparr>md_overallRank := rank\<rparr> else obj)"
  have obj0: "md_timeApproved obj0 = md_timeApproved obj \<and> md_approvedBy obj0 = md_approvedBy obj"
    by (simp add: obj0_def)
  have "obj' = obj0 \<or> (\<exists>a b. defaultDifficultyLoop defaults a obj0 = (b, obj'))"
    using assms unfolding handleNonNormalMods_def Let_def obj0_def [symmetric]
    by (simp split: option.splits if_splits stringOrArray.splits sum.splits prod.splits)
       blast+
  then show ?thesis
    using obj0 defaultDifficultyLoop_approval by metis
qed

lemma setChapterOrDifficulty_approval:
  assumes "setChapterOrDifficulty mapObject modType custom defaults usesCustom hasSub obj = Inr obj'"
  shows "md_timeApproved obj' = md_timeApproved obj \<and> md_approvedBy obj' = md_approvedBy obj"
proof (cases "modType = Normal")
  case True
  with assms show ?thesis by (auto simp: setChapterOrDifficulty_def)
next
  case False
  with assms show ?thesis by (simp add: setChapterOrDifficulty_def handleNonNormalMods_approval)
qed

lemma setTech_approval:
  "md_timeApproved (setTech ta tf obj) = md_timeApproved obj \<and>
   md_approvedBy (setTech ta tf obj) = md_approvedBy obj"
  by (simp add: setTech_def)

text \<open>
  C10. Whenever \<^verbatim>\<open>getMapIdCreationObject\<close> returns a creation object: if the submitting
  user's \<^verbatim>\<open>permissionsArray\<close> holds "Super_Admin", "Admin" or "Map_Moderator", the object
  has \<^verbatim>\<open>timeApproved\<close> equal to the time of submission and is connected to the submitting
  user as approver; if it holds none of them, neither property is set.
\<close>

theorem auto_approval:
  assumes "getMapIdCreationObject user parents techs userExists mapObject currentTime modType
             lengths custom defaults usesCustom hasSub = Inr created"
  shows "if \<exists>perm\<in>set (permissionsArray user).
              perm = ''Super_Admin'' \<or> perm = ''Admin'' \<or> perm = ''Map_Moderator''
         then md_timeApproved created = Some currentTime \<and>
              md_approvedBy created = Some (user_id user)
         else md_timeApproved created = None \<and> md_approvedBy created = None"
proof -
  let ?priv = "\<exists>perm\<in>set (permissionsArray user).
              perm = ''Super_Admin'' \<or> perm = ''Admin'' \<or> perm = ''Map_Moderator''"
  let ?canon = "getCanonicalDifficultyID parents techs (map_canonicalDifficulty mapObject)
                  (map_techAny mapObject)"
  let ?lengthID = "case find (\<lambda>l. length_name l = map_length mapObject) lengths of
                     None \<Rightarrow> 0 | Some l \<Rightarrow> length_id l"
  note defs = getMapIdCreationObject_def privilegedUser_eq Let_def
  obtain c where c: "?canon = Inr c"
    using assms by (cases ?canon) (simp_all add: defs)
  have len: "?lengthID \<noteq> 0"
    using assms c by (auto simp: defs)
  let ?obj1 = "setApproval ?priv currentTime user
                 (newMapDetails mapObject c ?lengthID currentTime user)"
  let ?m = "setMapper userExists (map_mapperUserID mapObject) (map_mapperNameString mapObject)
              ?obj1"
  obtain obj2 where obj2: "?m = Inr obj2"
    using assms c len by (cases ?m) (simp_all add: defs)
  let ?d = "setChapterOrDifficulty mapObject modType custom defaults usesCustom hasSub obj2"
  obtain obj3 where obj3: "?d = Inr obj3"
    using assms c len obj2 by (cases ?d) (simp_all add: defs)
  have created: "created = setTech (map_techAny mapObject) (map_techFC mapObject) obj3"
    using assms c len obj2 obj3 by (simp add: defs)
  have "md_timeApproved ?obj1 = (if ?priv then Some currentTime else None)"
    and "md_approvedBy ?obj1 = (if ?priv then Some (user_id user) else None)"
    by (simp_all add: setApproval_def newMapDetails_def)
  with setMapper_approval [OF obj2] setChapterOrDifficulty_approval [OF obj3]
  show ?thesis
    by (simp add: created setTech_approval)
qed

theorem auto_approval_witness:
  "getMapIdCreationObject (steve\<lparr>permissionsArray := [''Map_Moderator'']\<rparr>) [easyRow] []
     (\<lambda>uid. False) summit 100 Normal [shortLength] [] [] True False =
     Inr ((newMapDetails summit 1 1 100 steve)
            \<lparr>md_timeApproved := Some 100, md_approvedBy := Some 5,
             md_mapperNameString := Some ''steve'',
             md_chapter := Some 1, md_side := Some ''A''\<rparr>) \<and>
   md_timeApproved ((newMapDetails summit 1 1 100 steve)
            \<lparr>md_timeApproved := Some 100, md_approvedBy := Some 5,
             md_mapperNameString := Some ''steve'',
             md_chapter := Some 1, md_side := Some ''A''\<rparr>) = Some 100 \<and>
   md_approvedBy ((newMapDetails summit 1 1 100 steve)
            \<lparr>md_timeApproved := Some 100, md_approvedBy := Some 5,
             md_mapperNameString := Some ''steve'',
             md_chapter := Some 1, md_side := Some ''A''\<rparr>) =
     Some (user_id (steve\<lparr>permissionsArray := [''Map_Moderator'']\<rparr>))"
proof -
  let ?created = "(newMapDetails summit 1 1 100 steve)
            \<lparr>md_timeApproved := Some 100, md_approvedBy := Some 5,
             md_mapperNameString := Some ''steve'',
             md_chapter := Some 1, md_side := Some ''A''\<rparr>"
  have h: "getMapIdCreationObject (steve\<lparr>permissionsArray := [''Map_Moderator'']\<rparr>) [easyRow] []
     (\<lambda>uid. False) summit 100 Normal [shortLength] [] [] True False = Inr ?created"
    by (simp add: getMapIdCreationObject_def getCanonicalDifficultyID_def privilegedUser_def
                  tryCatch_def setMapper_def setMapperNameString_def setApproval_def
                  setChapterOrDifficulty_def setTech_def newMapDetails_def
                  steve_def summit_def easyRow_def shortLength_def)
  have p: "\<exists>perm\<in>set (permissionsArray (steve\<lparr>permissionsArray := [''Map_Moderator'']\<rparr>)).
             perm = ''Super_Admin'' \<or> perm = ''Admin'' \<or> perm = ''Map_Moderator''"
    by simp
  from auto_approval [OF h] p
  have "md_timeApproved ?created = Some 100 \<and>
        md_approvedBy ?created = Some (user_id (steve\<lparr>permissionsArray := [''Map_Moderator'']\<rparr>))"
    by (simp only: if_True)
  with h show ?thesis by (rule conjI)
qed

lemma no_approval_example:
  "getMapIdCreationObject steve [easyRow] [] (\<lambda>uid. False) summit 100 Normal [shortLength]
     [] [] True False =
     Inr ((newMapDetails summit 1 1 100 steve)
            \<lparr>md_mapperNameString := Some ''steve'',
             md_chapter := Some 1, md_side := Some ''A''\<rparr>)"
  by (simp add: getMapIdCreationObject_def getCanonicalDifficultyID_def privilegedUser_def
                tryCatch_def setMapper_def setMapperNameString_def setApproval_def
                setChapterOrDifficulty_def setTech_def newMapDetails_def
                steve_def summit_def easyRow_def shortLength_def)

section \<open>Properties of the identity lookups\<close>

lemma tryCatch_returns: "\<exists>v. tryCatch body = Inr v"
  by (cases body) (simp_all add: tryCatch_def)

lemma getGamebananaUsernameById_200:
  "axios gamebananaID = Inr r \<Longrightarrow> response_status r = 200 \<Longrightarrow>
     getGamebananaUsernameById axios jsString gamebananaID =
       Inr (Inr (jsString (elementAt (response_data r) 0)))"
  by (simp add: getGamebananaUsernameById_def tryCatch_def)

lemma getGamebananaIdByUsername_200:
  "axios gamebananaUsername = Inr r \<Longrightarrow> response_status r = 200 \<Longrightarrow>
     getGamebananaIdByUsername axios jsNumberOf gamebananaUsername =
       Inr (Inr (if jsNumberOf (elementAt (response_data r) 0) = NaN then Finite (- 1)
                 else jsNumberOf (elementAt (response_data r) 0)))"
  by (simp add: getGamebananaIdByUsername_def tryCatch_def Let_def)

text \<open>
  C9. Neither lookup throws to its caller, whatever the request does. When the request
  answers with status 200 and an array, the lookup by id returns the string conversion of
  the array's first element, which is the display name or whatever the service sends for
  an unknown id; the lookup by name returns the number conversion of the first element,
  or - 1 when that conversion is \<^verbatim>\<open>NaN\<close>.
\<close>

theorem identity_lookup_sentinels:
  "(\<exists>v. getGamebananaUsernameById axios jsString gamebananaID = Inr v) \<and>
   (\<exists>v. getGamebananaIdByUsername axios' jsNumberOf gamebananaUsername = Inr v) \<and>
   (\<forall>r. axios gamebananaID = Inr r \<and> response_status r = 200 \<longrightarrow>
        getGamebananaUsernameById axios jsString gamebananaID =
          Inr (Inr (jsString (elementAt (response_data r) 0)))) \<and>
   (\<forall>r. axios' gamebananaUsername = Inr r \<and> response_status r = 200 \<longrightarrow>
        getGamebananaIdByUsername axios' jsNumberOf gamebananaUsername =
          Inr (Inr (if jsNumberOf (elementAt (response_data r) 0) = NaN then Finite (- 1)
                    else jsNumberOf (elementAt (response_data r) 0))))"
proof (intro conjI allI impI)
  show "\<exists>v. getGamebananaUsernameById axios jsString gamebananaID = Inr v"
    unfolding getGamebananaUsernameById_def by (rule tryCatch_returns)
  show "\<exists>v. getGamebananaIdByUsername axios' jsNumberOf gamebananaUsername = Inr v"
    unfolding getGamebananaIdByUsername_def by (rule tryCatch_returns)
qed (simp_all add: getGamebananaUsernameById_200 getGamebananaIdByUsername_200)

theorem identity_lookup_sentinels_witness:
  "getGamebananaUsernameById
     (\<lambda>i. Inr \<lparr>response_status = 200, response_data = [''steve'']\<rparr>)
     (\<lambda>v. case v of None \<Rightarrow> ''undefined'' | Some s \<Rightarrow> s) 5 = Inr (Inr ''steve'') \<and>
   getGamebananaIdByUsername
     (\<lambda>n. Inr \<lparr>response_status = 200, response_data = [''false'']\<rparr>)
     (\<lambda>v. NaN) ''steve'' = Inr (Inr (Finite (- 1)))"
proof -
  let ?r = "\<lparr>response_status = 200, response_data = [''steve'']\<rparr>"
  let ?r' = "\<lparr>response_status = 200, response_data = [''false'']\<rparr>"
  let ?axios = "\<lambda>i :: int. (Inr ?r :: thrown + string axiosResponse)"
  let ?axios' = "\<lambda>n :: string. (Inr ?r' :: thrown + string axiosResponse)"
  let ?jsString = "\<lambda>v :: string option. case v of None \<Rightarrow> ''undefined'' | Some s \<Rightarrow> s"
  let ?jsNumberOf = "\<lambda>v :: string option. NaN"
  have h: "?axios 5 = Inr ?r \<and> response_status ?r = 200"
    by simp
  have h': "?axios' ''steve'' = Inr ?r' \<and> response_status ?r' = 200"
    by simp
  from identity_lookup_sentinels [of ?axios ?jsString 5 ?axios' ?jsNumberOf "''steve''"]
  have "getGamebananaUsernameById ?axios ?jsString 5 =
          Inr (Inr (?jsString (elementAt (response_data ?r) 0)))"
    and "getGamebananaIdByUsername ?axios' ?jsNumberOf ''steve'' =
          Inr (Inr (if ?jsNumberOf (elementAt (response_data ?r') 0) = NaN then Finite (- 1)
                    else ?jsNumberOf (elementAt (response_data ?r') 0)))"
    using h h' by blast+
  then show ?thesis
    by (simp add: elementAt_def)
qed

section \<open>The round trip through the store\<close>

lemma persistDifficulties_Cons:
  "persistDifficulties n (parentRecords i (e # ds)) =
     (case entryName e of
        None \<Rightarrow> None
      | Some nm \<Rightarrow>
          (case persistDifficulties (n + 1 + int (length (entryChildren e)))
                  (parentRecords (i + 1) ds) of
             None \<Rightarrow> None
           | Some rest \<Rightarrow>
               Some (\<lparr>difficulty_id = n, difficulty_name = nm, difficulty_order = i + 1,
                      parentDifficultyID = None\<rparr>
                     # persistChildren n (n + 1) (childRecords 1 (entryChildren e)) @ rest)))"
  by (cases e) (simp_all add: createdChildren_def split: option.split)

lemma persistChildren_row:
  "r \<in> set (persistChildren pid m cs) \<Longrightarrow>
     parentDifficultyID r = Some pid \<and> m \<le> difficulty_id r"
  by (induction pid m cs rule: persistChildren.induct) auto

lemma persistDifficulties_row:
  "persistDifficulties n (parentRecords i ds) = Some stored \<Longrightarrow> r \<in> set stored \<Longrightarrow>
     n \<le> difficulty_id r \<and>
     (case parentDifficultyID r of None \<Rightarrow> i + 1 \<le> difficulty_order r | Some p \<Rightarrow> n \<le> p)"
proof (induction ds arbitrary: n i stored)
  case Nil
  then show ?case by simp
next
  case (Cons e ds)
  from Cons.prems(1) obtain nm rest where
    rest: "persistDifficulties (n + 1 + int (length (entryChildren e))) (parentRecords (i + 1) ds)
             = Some rest"
    and stored: "stored = \<lparr>difficulty_id = n, difficulty_name = nm, difficulty_order = i + 1,
                      parentDifficultyID = None\<rparr>
                     # persistChildren n (n + 1) (childRecords 1 (entryChildren e)) @ rest"
    by (auto simp: persistDifficulties_Cons split: option.splits)
  from Cons.prems(2) stored consider
      "r = \<lparr>difficulty_id = n, difficulty_name = nm, difficulty_order = i + 1,
                      parentDifficultyID = None\<rparr>"
    | "r \<in> set (persistChildren n (n + 1) (childRecords 1 (entryChildren e)))"
    | "r \<in> set rest"
    by auto
  then show ?case
  proof cases
    case 1
    then show ?thesis by simp
  next
    case 2
    from persistChildren_row [OF this] show ?thesis by simp
  next
    case 3
    from Cons.IH [OF rest this] show ?thesis
      by (auto split: option.splits)
  qed
qed

lemma filter_persistChildren_same:
  "filter (\<lambda>r. parentDifficultyID r = Some pid) (persistChildren pid m cs) = persistChildren pid m cs"
  by (induction pid m cs rule: persistChildren.induct) simp_all

lemma filter_persistChildren_other:
  "q \<noteq> Some pid \<Longrightarrow> filter (\<lambda>r. parentDifficultyID r = q) (persistChildren pid m cs) = []"
  by (induction pid m cs rule: persistChildren.induct) auto

lemma persistDifficulties_parents_length:
  "persistDifficulties n (parentRecords i ds) = Some stored \<Longrightarrow>
     length (filter (\<lambda>r. parentDifficultyID r = None) stored) = length ds"
proof (induction ds arbitrary: n i stored)
  case Nil
  then show ?case by simp
next
  case (Cons e ds)
  from Cons.prems(1) obtain nm rest where
    rest: "persistDifficulties (n + 1 + int (length (entryChildren e))) (parentRecords (i + 1) ds)
             = Some rest"
    and stored: "stored = \<lparr>difficulty_id = n, difficulty_name = nm, difficulty_order = i + 1,
                      parentDifficultyID = None\<rparr>
                     # persistChildren n (n + 1) (childRecords 1 (entryChildren e)) @ rest"
    by (auto simp: persistDifficulties_Cons split: option.splits)
  show ?case
    by (simp add: stored filter_persistChildren_other Cons.IH [OF rest])
qed

lemma persistDifficulties_entry:
  assumes "persistDifficulties n (parentRecords i ds) = Some stored" and "k < length ds"
  shows "\<exists>pid nm.
           entryName (ds ! k) = Some nm \<and>
           \<lparr>difficulty_id = pid, difficulty_name = nm, difficulty_order = i + int k + 1,
            parentDifficultyID = None\<rparr> \<in> set stored \<and>
           (\<forall>r\<in>set stored.
              parentDifficultyID r = None \<and> difficulty_order r = i + int k + 1 \<longrightarrow>
              r = \<lparr>difficulty_id = pid, difficulty_name = nm, difficulty_order = i + int k + 1,
                    parentDifficultyID = None\<rparr>) \<and>
           filter (\<lambda>r. parentDifficultyID r = Some pid) stored =
             persistChildren pid (pid + 1) (childRecords 1 (entryChildren (ds ! k)))"
  using assms
proof (induction ds arbitrary: n i stored k)
  case Nil
  then show ?case by simp
next
  case (Cons e ds)
  let ?n' = "n + 1 + int (length (entryChildren e))"
  let ?kids = "persistChildren n (n + 1) (childRecords 1 (entryChildren e))"
  from Cons.prems(1) obtain nm rest where
    nm: "entryName e = Some nm"
    and rest: "persistDifficulties ?n' (parentRecords (i + 1) ds) = Some rest"
    and stored: "stored = \<lparr>difficulty_id = n, difficulty_name = nm, difficulty_order = i + 1,
                      parentDifficultyID = None\<rparr> # ?kids @ rest"
    by (auto simp: persistDifficulties_Cons split: option.splits)
  let ?prow = "\<lparr>difficulty_id = n, difficulty_name = nm, difficulty_order = i + 1,
                      parentDifficultyID = None\<rparr>"
  have kids: "\<And>r. r \<in> set ?kids \<Longrightarrow> parentDifficultyID r = Some n"
    using persistChildren_row by blast
  note restrow = persistDifficulties_row [OF rest]
  show ?case
  proof (cases k)
    case 0
    have uniq: "\<forall>r\<in>set stored. parentDifficultyID r = None \<and> difficulty_order r = i + int k + 1
                  \<longrightarrow> r = ?prow"
    proof (intro ballI impI)
      fix r assume r: "r \<in> set stored"
        and c: "parentDifficultyID r = None \<and> difficulty_order r = i + int k + 1"
      from r stored consider "r = ?prow" | "r \<in> set ?kids" | "r \<in> set rest" by auto
      then show "r = ?prow"
      proof cases
        case 1 then show ?thesis .
      next
        case 2 with kids c show ?thesis by simp
      next
        case 3
        from restrow [OF this] c 0 show ?thesis by simp
      qed
    qed
    have "filter (\<lambda>r. parentDifficultyID r = Some n) rest = []"
    proof -
      have "\<forall>r\<in>set rest. parentDifficultyID r \<noteq> Some n"
      proof
        fix r assume "r \<in> set rest"
        from restrow [OF this] show "parentDifficultyID r \<noteq> Some n"
          by (auto split: option.splits)
      qed
      then show ?thesis by (simp add: filter_empty_conv)
    qed
    then have filt: "filter (\<lambda>r. parentDifficultyID r = Some n) stored = ?kids"
      by (simp add: stored filter_persistChildren_same)
    from nm uniq filt 0 show ?thesis
      by (intro exI [of _ n] exI [of _ nm]) (simp add: stored)
  next
    case (Suc k')
    with Cons.prems(2) have k': "k' < length ds" by simp
    from Cons.IH [OF rest k'] obtain pid nm' where
      nm': "entryName (ds ! k') = Some nm'"
      and mem: "\<lparr>difficulty_id = pid, difficulty_name = nm', difficulty_order = i + 1 + int k' + 1,
            parentDifficultyID = None\<rparr> \<in> set rest"
      and uniq': "\<forall>r\<in>set rest.
              parentDifficultyID r = None \<and> difficulty_order r = i + 1 + int k' + 1 \<longrightarrow>
              r = \<lparr>difficulty_id = pid, difficulty_name = nm', difficulty_order = i + 1 + int k' + 1,
                    parentDifficultyID = None\<rparr>"
      and filt': "filter (\<lambda>r. parentDifficultyID r = Some pid) rest =
             persistChildren pid (pid + 1) (childRecords 1 (entryChildren (ds ! k')))"
      by blast
    have ord: "i + int k + 1 = i + 1 + int k' + 1" using Suc by simp
    from restrow [OF mem] have pid: "pid \<noteq> n" by simp
    have uniq: "\<forall>r\<in>set stored. parentDifficultyID r = None \<and> difficulty_order r = i + int k + 1
                  \<longrightarrow> r = \<lparr>difficulty_id = pid, difficulty_name = nm',
                           difficulty_order = i + int k + 1, parentDifficultyID = None\<rparr>"
    proof (intro ballI impI)
      fix r assume r: "r \<in> set stored"
        and c: "parentDifficultyID r = None \<and> difficulty_order r = i + int k + 1"
      from r stored consider "r = ?prow" | "r \<in> set ?kids" | "r \<in> set rest" by auto
      then show "r = \<lparr>difficulty_id = pid, difficulty_name = nm',
                           difficulty_order = i + int k + 1, parentDifficultyID = None\<rparr>"
      proof cases
        case 1 with c Suc show ?thesis by simp
      next
        case 2 with kids c show ?thesis by simp
      next
        case 3
        with uniq' c ord show ?thesis by simp
      qed
    qed
    have filt: "filter (\<lambda>r. parentDifficultyID r = Some pid) stored =
             persistChildren pid (pid + 1) (childRecords 1 (entryChildren (ds ! k')))"
      using pid by (simp add: stored filt' filter_persistChildren_other)
    from nm' mem uniq filt Suc show ?thesis
      by (intro exI [of _ pid] exI [of _ nm']) (simp add: stored ord)
  qed
qed

lemma persistDifficulties_valid:
  "list_all validElement ds \<Longrightarrow> \<exists>stored. persistDifficulties n (parentRecords i ds) = Some stored"
proof (induction ds arbitrary: n i)
  case Nil
  show ?case by simp
next
  case (Cons e ds)
  from Cons.prems have "\<exists>nm. entryName e = Some nm"
    by (cases e) (auto simp: elementAt_def)
  moreover from Cons obtain rest where
    "persistDifficulties (n + 1 + int (length (entryChildren e))) (parentRecords (i + 1) ds)
       = Some rest"
    by fastforce
  ultimately show ?case
    by (auto simp: persistDifficulties_Cons)
qed

lemma find_unique:
  assumes "x \<in> set xs" and "P x" and "\<forall>y\<in>set xs. P y \<longrightarrow> y = x"
  shows "find P xs = Some x"
proof -
  from assms(1,2) have "find P xs \<noteq> None"
    by (auto simp: find_None_iff)
  then obtain y where y: "find P xs = Some y" by auto
  then have "y \<in> set xs" and "P y"
    by (auto simp: find_Some_iff)
  with assms(3) y show ?thesis by simp
qed

lemma find_snoc:
  "find P (xs @ [y]) = (case find P xs of Some x \<Rightarrow> Some x | None \<Rightarrow> if P y then Some y else None)"
  by (induction xs) simp_all

lemma firstParentDifficultyID_snoc:
  "g \<noteq> [] \<Longrightarrow> firstParentDifficultyID (g @ [d]) = firstParentDifficultyID g"
  by (cases g) simp_all

lemma pushToSiblingArray_groups:
  assumes "pushToSiblingArray d ss = (b, ss')" and "parentDifficultyID d = Some q"
    and "[] \<notin> set ss"
  shows "(b \<longleftrightarrow> find (\<lambda>g. firstParentDifficultyID g = Some q) ss \<noteq> None) \<and>
         [] \<notin> set ss' \<and>
         (b \<longrightarrow> find (\<lambda>g. firstParentDifficultyID g = Some pid) ss' =
                 (if pid = q
                  then map_option (\<lambda>g. g @ [d]) (find (\<lambda>g. firstParentDifficultyID g = Some q) ss)
                  else find (\<lambda>g. firstParentDifficultyID g = Some pid) ss))"
  using assms
proof (induction ss arbitrary: b ss')
  case Nil
  then show ?case by simp
next
  case (Cons g ss)
  from Cons.prems(3) have g: "g \<noteq> []" and ss: "[] \<notin> set ss" by auto
  show ?case
  proof (cases "firstParentDifficultyID g = Some q")
    case True
    with Cons.prems(1,2) have "b" and "ss' = (g @ [d]) # ss" by simp_all
    with True g ss show ?thesis
      by (simp add: firstParentDifficultyID_snoc)
  next
    case False
    obtain b0 ss0 where p: "pushToSiblingArray d ss = (b0, ss0)"
      by (cases "pushToSiblingArray d ss")
    with False Cons.prems(1,2) have b: "b = b0" and ss': "ss' = g # ss0" by simp_all
    from Cons.IH [OF p Cons.prems(2) ss] False g show ?thesis
      by (auto simp: b ss')
  qed
qed

lemma partitionDifficulties_groups:
  assumes "[] \<notin> set ss"
  shows "find (\<lambda>g. firstParentDifficultyID g = Some pid) (snd (partitionDifficulties rows (ps, ss))) =
     (case find (\<lambda>g. firstParentDifficultyID g = Some pid) ss of
        Some g \<Rightarrow> Some (g @ filter (\<lambda>r. parentDifficultyID r = Some pid) rows)
      | None \<Rightarrow>
          if filter (\<lambda>r. parentDifficultyID r = Some pid) rows = [] then None
          else Some (filter (\<lambda>r. parentDifficultyID r = Some pid) rows))"
  using assms
proof (induction rows arbitrary: ps ss)
  case Nil
  then show ?case by (simp split: option.split)
next
  case (Cons d rows)
  show ?case
  proof (cases "parentDifficultyID d")
    case None
    with Cons show ?thesis by (simp split: option.split)
  next
    case (Some q)
    obtain b ss' where p: "pushToSiblingArray d ss = (b, ss')"
      by (cases "pushToSiblingArray d ss")
    note push = pushToSiblingArray_groups [OF p Some Cons.prems, of pid]
    let ?F = "filter (\<lambda>r. parentDifficultyID r = Some pid)"
    have F: "?F (d # rows) = (if pid = q then d # ?F rows else ?F rows)"
      using Some by auto
    show ?thesis
    proof (cases b)
      case True
      with push have ss': "[] \<notin> set ss'" by simp
      from True push obtain g0 where
        g0: "find (\<lambda>g. firstParentDifficultyID g = Some q) ss = Some g0"
        by auto
      from True push have
        f: "find (\<lambda>g. firstParentDifficultyID g = Some pid) ss' =
              (if pid = q then Some (g0 @ [d])
               else find (\<lambda>g. firstParentDifficultyID g = Some pid) ss)"
        by (simp add: g0)
      from True Some p have
        eq: "partitionDifficulties (d # rows) (ps, ss) = partitionDifficulties rows (ps, ss')"
        by simp
      show ?thesis
      proof (cases "pid = q")
        case True
        then show ?thesis
          unfolding eq Cons.IH [OF ss', of ps] f F by (simp add: g0)
      next
        case False
        then show ?thesis
          unfolding eq Cons.IH [OF ss', of ps] f F by simp
      qed
    next
      case False
      with push have none: "find (\<lambda>g. firstParentDifficultyID g = Some q) ss = None"
        by simp
      have ss': "[] \<notin> set (ss @ [[d]])" using Cons.prems by simp
      have f: "find (\<lambda>g. firstParentDifficultyID g = Some pid) (ss @ [[d]]) =
                 (if pid = q then Some [d]
                  else find (\<lambda>g. firstParentDifficultyID g = Some pid) ss)"
        using none Some by (auto simp: find_snoc split: option.split)
      from False Some p have
        eq: "partitionDifficulties (d # rows) (ps, ss) =
               partitionDifficulties rows (ps, ss @ [[d]])"
        by simp
      show ?thesis
      proof (cases "pid = q")
        case True
        then show ?thesis
          unfolding eq Cons.IH [OF ss', of ps] f F by (simp add: none)
      next
        case False
        then show ?thesis
          unfolding eq Cons.IH [OF ss', of ps] f F by simp
      qed
    qed
  qed
qed

text \<open>
  No array of \<^verbatim>\<open>subDifficultiesArray\<close> is ever empty, so the empty case of
  \<open>firstParentDifficultyID\<close> is not reached by the reconstruction.
\<close>

lemma partitionDifficulties_nonempty:
  "[] \<notin> set ss \<Longrightarrow> [] \<notin> set (snd (partitionDifficulties rows (ps, ss)))"
proof (induction rows arbitrary: ps ss)
  case Nil
  then show ?case by simp
next
  case (Cons d rows)
  show ?case
  proof (cases "parentDifficultyID d")
    case None
    with Cons show ?thesis by simp
  next
    case (Some q)
    obtain b ss' where p: "pushToSiblingArray d ss = (b, ss')"
      by (cases "pushToSiblingArray d ss")
    from pushToSiblingArray_groups [OF p Some Cons.prems] have ss': "[] \<notin> set ss'"
      by simp
    have "[] \<notin> set (ss @ [[d]])" using Cons.prems by simp
    with ss' Cons.IH Some p show ?thesis
      by (cases b) simp_all
  qed
qed

lemma upto_1_conv: "[1..int n] = map (\<lambda>j. 1 + int j) [0..<n]"
proof (induction n)
  case 0
  show ?case by simp
next
  case (Suc n)
  have "[1..int (Suc n)] = [1..int n] @ [int n + 1]"
    using upto_rec2 [of 1 "int n + 1"] by (simp add: add.commute)
  then show ?case by (simp add: Suc)
qed

lemma length_persistChildren [simp]: "length (persistChildren pid m cs) = length cs"
  by (induction pid m cs rule: persistChildren.induct) simp_all

lemma nth_persistChildren:
  "j < length cs \<Longrightarrow>
     persistChildren pid m (childRecords k cs) ! j =
       \<lparr>difficulty_id = m + int j, difficulty_name = cs ! j, difficulty_order = k + int j,
        parentDifficultyID = Some pid\<rparr>"
proof (induction cs arbitrary: m k j)
  case Nil
  then show ?case by simp
next
  case (Cons c cs)
  then show ?case by (cases j) simp_all
qed

lemma childrenNames_stored:
  assumes "mset g = mset (persistChildren pid m (childRecords 1 cs))"
  shows "childrenNames g = cs"
proof -
  let ?pc = "persistChildren pid m (childRecords 1 cs)"
  have len: "length g = length cs"
    using mset_eq_length [OF assms] by simp
  have set: "set g = set ?pc"
    using mset_eq_setD [OF assms] .
  have found: "find (\<lambda>s. difficulty_order s = 1 + int j) g = Some (?pc ! j)" if j: "j < length cs" for j
  proof (rule find_unique)
    show "?pc ! j \<in> set g" using j by (simp add: set)
    show "difficulty_order (?pc ! j) = 1 + int j" using j by (simp add: nth_persistChildren)
    show "\<forall>y\<in>set g. difficulty_order y = 1 + int j \<longrightarrow> y = ?pc ! j"
    proof (intro ballI impI)
      fix y assume "y \<in> set g" and o: "difficulty_order y = 1 + int j"
      then obtain j' where j': "j' < length cs" and y: "y = ?pc ! j'"
        by (auto simp: set in_set_conv_nth)
      with o have "j' = j" by (simp add: nth_persistChildren)
      with y show "y = ?pc ! j" by simp
    qed
  qed
  have "map (\<lambda>siblingOrder.
               case find (\<lambda>sibling. difficulty_order sibling = siblingOrder) g of
                 None \<Rightarrow> []
               | Some sibling \<Rightarrow> [difficulty_name sibling]) [1..int (length g)] =
        map (\<lambda>j. [cs ! j]) [0..<length cs]"
    by (simp add: len upto_1_conv found nth_persistChildren)
  then have "childrenNames g = concat (map (\<lambda>j. [cs ! j]) [0..<length cs])"
    by (simp add: childrenNames_def)
  also have "\<dots> = map (\<lambda>j. cs ! j) [0..<length cs]"
    by (rule concat_map_singleton)
  also have "\<dots> = cs"
    by (rule map_nth)
  finally show ?thesis .
qed

lemma checkContinuous_valid:
  "list_all validElement ds \<Longrightarrow> checkContinuous modID ds = None"
  by (induction modID ds rule: checkContinuous.induct) simp_all

lemma entry_rebuilt:
  assumes "validElement e" and "entryName e = Some nm"
  shows "(if entryChildren e = [] then Str nm else Arr (nm # entryChildren e)) = e"
proof (cases e)
  case (Str s)
  with assms show ?thesis by simp
next
  case (Arr a)
  with assms obtain x y zs where "a = x # y # zs"
    by (cases a; cases "tl a") auto
  with Arr assms show ?thesis by (simp add: elementAt_def)
qed

lemma formatParent_stored:
  assumes stored: "persistDifficulties n (parentRecords 0 ds) = Some stored"
    and rows: "mset rows = mset stored"
    and part: "partitionDifficulties rows ([], []) = (ps, ss)"
    and valid: "list_all validElement ds"
    and k: "k < length ds"
  shows "formatParent ps ss (1 + int k) = ds ! k"
proof -
  have ps: "ps = filter (\<lambda>d. parentDifficultyID d = None) rows"
    using partitionDifficulties_parents [of rows "[]" "[]"] part by simp
  have set: "set rows = set stored"
    using mset_eq_setD [OF rows] .
  from persistDifficulties_entry [OF stored k] obtain pid nm where
    nm: "entryName (ds ! k) = Some nm"
    and mem: "\<lparr>difficulty_id = pid, difficulty_name = nm, difficulty_order = 1 + int k,
               parentDifficultyID = None\<rparr> \<in> set stored"
    and uniq: "\<forall>r\<in>set stored.
                 parentDifficultyID r = None \<and> difficulty_order r = 1 + int k \<longrightarrow>
                 r = \<lparr>difficulty_id = pid, difficulty_name = nm, difficulty_order = 1 + int k,
                       parentDifficultyID = None\<rparr>"
    and kids: "filter (\<lambda>r. parentDifficultyID r = Some pid) stored =
                 persistChildren pid (pid + 1) (childRecords 1 (entryChildren (ds ! k)))"
    by (auto simp: add.commute)
  let ?prow = "\<lparr>difficulty_id = pid, difficulty_name = nm, difficulty_order = 1 + int k,
               parentDifficultyID = None\<rparr>"
  have "find (\<lambda>d. difficulty_order d = 1 + int k) ps = Some ?prow"
  proof (rule find_unique)
    show "?prow \<in> set ps" using mem by (simp add: ps set)
    show "difficulty_order ?prow = 1 + int k" by simp
    show "\<forall>y\<in>set ps. difficulty_order y = 1 + int k \<longrightarrow> y = ?prow"
      using uniq by (simp add: ps set)
  qed
  then have fp: "findParent (1 + int k) ps = (Some pid, nm)"
    by (simp add: findParent_def)
  let ?g = "filter (\<lambda>r. parentDifficultyID r = Some pid) rows"
  have "mset ?g = mset (filter (\<lambda>r. parentDifficultyID r = Some pid) stored)"
    by (simp add: rows)
  then have g: "mset ?g = mset (persistChildren pid (pid + 1)
                                   (childRecords 1 (entryChildren (ds ! k))))"
    by (simp only: kids)
  have len: "length ?g = length (entryChildren (ds ! k))"
    using mset_eq_length [OF g] by simp
  have look: "find (\<lambda>g. firstParentDifficultyID g = Some pid) ss =
                (if ?g = [] then None else Some ?g)"
    using partitionDifficulties_groups [of "[]" pid rows "[]"] part by simp
  from valid k have v: "validElement (ds ! k)"
    by (simp add: list_all_length)
  show ?thesis
  proof (cases "entryChildren (ds ! k) = []")
    case True
    with len have "?g = []" by simp
    with look fp have "formatParent ps ss (1 + int k) = Str nm"
      by (simp add: formatParent_def)
    with entry_rebuilt [OF v nm] True show ?thesis by simp
  next
    case False
    with len have "?g \<noteq> []" by auto
    with look fp have "formatParent ps ss (1 + int k) = Arr (nm # childrenNames ?g)"
      by (simp add: formatParent_def)
    with childrenNames_stored [OF g] entry_rebuilt [OF v nm] False show ?thesis by simp
  qed
qed

text \<open>
  C1, as the spec states it: every submission that the parser accepts comes back from the
  store. The parser accepts an array that holds a parent name only; its parent is stored
  without children and comes back as a bare name.
\<close>

theorem round_trip_parent_only_array_counterexample:
  "getDifficultyArrays [Arr [''Medium'']] =
     Inr (Inr ([Some ''Medium''],
               [\<lparr>parent_name = Some ''Medium'', parent_order = 1,
                 other_difficulties = Some []\<rparr>],
               True)) \<and>
   persistDifficulties 1
     [\<lparr>parent_name = Some ''Medium'', parent_order = 1, other_difficulties = Some []\<rparr>] =
     Some [\<lparr>difficulty_id = 1, difficulty_name = ''Medium'', difficulty_order = 1,
            parentDifficultyID = None\<rparr>] \<and>
   getSortedDifficultyNames
     [\<lparr>difficulty_id = 1, difficulty_name = ''Medium'', difficulty_order = 1,
       parentDifficultyID = None\<rparr>] 7 \<noteq> Inr [Arr [''Medium'']]"
  by (simp add: getDifficultyArrays_def tryCatch_def elementAt_def createdChildren_def
                getSortedDifficultyNames_def formatParent_def findParent_def upto.simps)

lemma round_trip_empty_name_example:
  "getSortedDifficultyNames
     [\<lparr>difficulty_id = 1, difficulty_name = [], difficulty_order = 1,
       parentDifficultyID = None\<rparr>] 7 = Inl (ParentOrdersNotContinuous 7)"
  by (simp add: getSortedDifficultyNames_def formatParent_def findParent_def upto.simps)

text \<open>
  C1, amended. Take a submission in which every bare name is non-empty and every array
  holds a parent name and at least one child name, all non-empty. The store accepts the
  nested creation list the parser makes of it, whatever the next free id; and from the
  stored rows, in whatever order the query returns them, the reconstruction returns the
  submission itself.
\<close>

theorem round_trip:
  assumes valid: "list_all validElement ds"
    and parsed: "getDifficultyArrays ds = Inr (Inr (names, data, flag))"
  shows "\<exists>stored. persistDifficulties nextId data = Some stored \<and>
           (\<forall>rows. mset rows = mset stored \<longrightarrow>
                    getSortedDifficultyNames rows modID = Inr ds)"
proof -
  from parsed have data: "data = parentRecords 0 ds"
    by (simp add: getDifficultyArrays_eq)
  from persistDifficulties_valid [OF valid] obtain stored where
    stored: "persistDifficulties nextId (parentRecords 0 ds) = Some stored"
    by blast
  have "getSortedDifficultyNames rows modID = Inr ds" if rows: "mset rows = mset stored" for rows
  proof -
    obtain ps ss where part: "partitionDifficulties rows ([], []) = (ps, ss)"
      by (cases "partitionDifficulties rows ([], [])")
    have ps: "ps = filter (\<lambda>d. parentDifficultyID d = None) rows"
      using partitionDifficulties_parents [of rows "[]" "[]"] part by simp
    have "mset ps = mset (filter (\<lambda>d. parentDifficultyID d = None) stored)"
      by (simp add: ps rows)
    from mset_eq_length [OF this] have len: "length ps = length ds"
      by (simp add: persistDifficulties_parents_length [OF stored])
    have "map (formatParent ps ss) [1..int (length ps)] =
          map (\<lambda>k. ds ! k) [0..<length ds]"
      by (simp add: len upto_1_conv formatParent_stored [OF stored rows part valid])
    also have "\<dots> = ds" by (rule map_nth)
    finally have "map (formatParent ps ss) [1..int (length ps)] = ds" .
    then show ?thesis
      by (simp add: getSortedDifficultyNames_def part checkContinuous_valid [OF valid])
  qed
  with stored show ?thesis by (simp add: data)
qed

theorem round_trip_witness:
  "list_all validElement [Str ''Easy'', Arr [''Medium'', ''Medium+''], Str ''Hard''] \<and>
   getDifficultyArrays [Str ''Easy'', Arr [''Medium'', ''Medium+''], Str ''Hard''] =
     Inr (Inr ([Some ''Easy'', Some ''Medium+'', Some ''Medium'', Some ''Hard''],
               [\<lparr>parent_name = Some ''Easy'', parent_order = 1, other_difficulties = None\<rparr>,
                \<lparr>parent_name = Some ''Medium'', parent_order = 2,
                 other_difficulties = Some [\<lparr>child_name = ''Medium+'', child_order = 1\<rparr>]\<rparr>,
                \<lparr>parent_name = Some ''Hard'', parent_order = 3, other_difficulties = None\<rparr>],
               True)) \<and>
   getSortedDifficultyNames
     [\<lparr>difficulty_id = 13, difficulty_name = ''Hard'', difficulty_order = 3,
       parentDifficultyID = None\<rparr>,
      \<lparr>difficulty_id = 12, difficulty_name = ''Medium+'', difficulty_order = 1,
       parentDifficultyID = Some 11\<rparr>,
      \<lparr>difficulty_id = 11, difficulty_name = ''Medium'', difficulty_order = 2,
       parentDifficultyID = None\<rparr>,
      \<lparr>difficulty_id = 10, difficulty_name = ''Easy'', difficulty_order = 1,
       parentDifficultyID = None\<rparr>] 7 =
     Inr [Str ''Easy'', Arr [''Medium'', ''Medium+''], Str ''Hard'']"
proof -
  let ?ds = "[Str ''Easy'', Arr [''Medium'', ''Medium+''], Str ''Hard'']"
  let ?data = "[\<lparr>parent_name = Some ''Easy'', parent_order = 1, other_difficulties = None\<rparr>,
                \<lparr>parent_name = Some ''Medium'', parent_order = 2,
                 other_difficulties = Some [\<lparr>child_name = ''Medium+'', child_order = 1\<rparr>]\<rparr>,
                \<lparr>parent_name = Some ''Hard'', parent_order = 3, other_difficulties = None\<rparr>]"
  let ?r10 = "\<lparr>difficulty_id = 10, difficulty_name = ''Easy'', difficulty_order = 1,
       parentDifficultyID = None\<rparr>"
  let ?r11 = "\<lparr>difficulty_id = 11, difficulty_name = ''Medium'', difficulty_order = 2,
       parentDifficultyID = None\<rparr>"
  let ?r12 = "\<lparr>difficulty_id = 12, difficulty_name = ''Medium+'', difficulty_order = 1,
       parentDifficultyID = Some 11\<rparr>"
  let ?r13 = "\<lparr>difficulty_id = 13, difficulty_name = ''Hard'', difficulty_order = 3,
       parentDifficultyID = None\<rparr>"
  have h1: "list_all validElement ?ds"
    by simp
  have h2: "getDifficultyArrays ?ds =
     Inr (Inr ([Some ''Easy'', Some ''Medium+'', Some ''Medium'', Some ''Hard''], ?data, True))"
    by (simp add: getDifficultyArrays_def tryCatch_def elementAt_def)
  have p: "persistDifficulties 10 ?data = Some [?r10, ?r11, ?r12, ?r13]"
    by (simp add: createdChildren_def)
  have m: "mset [?r13, ?r12, ?r11, ?r10] = mset [?r10, ?r11, ?r12, ?r13]"
    by (simp add: add_mset_commute)
  from round_trip [OF h1 h2, of 10 7] obtain stored where
    s: "persistDifficulties 10 ?data = Some stored"
    and r: "\<forall>rows. mset rows = mset stored \<longrightarrow>
                  getSortedDifficultyNames rows 7 = Inr ?ds"
    by blast
  from s p have "stored = [?r10, ?r11, ?r12, ?r13]"
    by simp
  with r m have "getSortedDifficultyNames [?r13, ?r12, ?r11, ?r10] 7 = Inr ?ds"
    by blast
  with h1 h2 show ?thesis
    by blast
qed

end
